theory Spec2Isabelle
  imports Main
begin

section \<open>Values shared by the transports\<close>

text \<open>
  The failures the transports raise. \<open>InvalidStateError\<close> and \<open>UnsupportedError\<close> are the
  classes of \<^verbatim>\<open>./errors\<close>, \<open>TypeError\<close> is the built-in one; \<open>Error\<close> stands for every other
  failure (whatever the handler or the AwaitQueue rejects with). In the words of the
  specification: Closed is \<open>InvalidStateError ''closed''\<close>, BadArgument is a \<open>TypeError\<close>,
  Unsupported is an \<open>UnsupportedError\<close>.
\<close>

datatype error =
    InvalidStateError string
  | UnsupportedError string
  | TypeError string
  | Error string

datatype direction = Send | Recv

datatype IceGatheringState = Ice_new | Ice_gathering | Ice_complete

datatype ConnectionState =
    Conn_new
  | Conn_connecting
  | Conn_connected
  | Conn_failed
  | Conn_disconnected
  | Conn_closed

text \<open>
  What listeners are told: the two events of \<^verbatim>\<open>TransportEvents\<close>, emitted on the transport,
  and the \<^verbatim>\<open>close\<close> event of \<^verbatim>\<open>TransportObserverEvents\<close>, emitted on the observer.
\<close>

datatype notification =
    Icegatheringstatechange IceGatheringState
  | Connectionstatechange ConnectionState
  | Observer_close

text \<open>
  JavaScript values as far as the transports look at them: \<^verbatim>\<open>typeof\<close> and truthiness.
  An object is a list of its fields; a field that is absent reads \<^verbatim>\<open>undefined\<close>.
  Numbers are only copied and tested against zero, so integers stand for them.
\<close>

datatype jsval = JUndefined | JBoolean bool | JNumber int | JString string

type_synonym jsobject = "(string \<times> jsval) list"

definition field :: "jsobject \<Rightarrow> string \<Rightarrow> jsval" where
  "field obj k = (case map_of obj k of None \<Rightarrow> JUndefined | Some v \<Rightarrow> v)"

text \<open>Truthiness of an optional number: \<^verbatim>\<open>undefined\<close> and \<^verbatim>\<open>0\<close> are falsy.\<close>

definition truthy :: "int option \<Rightarrow> bool" where
  "truthy n = (case n of None \<Rightarrow> False | Some v \<Rightarrow> v \<noteq> 0)"

text \<open>A \<^verbatim>\<open>MediaStreamTrack\<close>: its kind and whether it is live; \<^verbatim>\<open>stop()\<close> ends it.\<close>

datatype readyState = Live | Ended

record MediaStreamTrack =
  track_kind :: string
  track_readyState :: readyState

definition track_stop :: "MediaStreamTrack \<Rightarrow> MediaStreamTrack" where
  "track_stop tr = tr\<lparr>track_readyState := Ended\<rparr>"

text \<open>
  Parameter objects (\<^verbatim>\<open>RtpParameters\<close>, \<^verbatim>\<open>SctpStreamParameters\<close>) are mutable and are passed by
  reference. They live in a store, a list indexed by reference; their contents stay
  abstract (the type variable \<open>'o\<close>).
\<close>

type_synonym ref = nat

section \<open>The handler and the helper modules\<close>

text \<open>
  The requests a handler (\<^verbatim>\<open>HandlerInterface\<close>) receives. \<open>vcall\<close> collects the methods that
  return \<^verbatim>\<open>Promise<void>\<close>.
\<close>

datatype vcall =
    RestartIce jsobject
  | UpdateIceServers "jsobject list"
  | StopSending string
  | PauseSending string
  | ResumeSending string
  | ReplaceTrack string "MediaStreamTrack option"
  | SetMaxSpatialLayer string int
  | SetRtpEncodingParameters string jsobject
  | StopReceiving "string list"
  | PauseReceiving "string list"
  | ResumeReceiving "string list"

record HandlerSendOptions =
  send_track :: MediaStreamTrack
  send_encodings :: "jsobject list option"
  send_codecOptions :: "jsobject option"
  send_codec :: "jsobject option"

record HandlerSendDataChannelOptions =
  sdc_ordered :: bool
  sdc_maxPacketLifeTime :: "int option"
  sdc_maxRetransmits :: "int option"
  sdc_label :: string
  sdc_protocol :: string

record HandlerReceiveOptions =
  recv_trackId :: string
  recv_kind :: string
  recv_rtpParameters :: ref
  recv_streamId :: "string option"

record HandlerReceiveDataChannelOptions =
  rdc_sctpStreamParameters :: ref
  rdc_label :: string
  rdc_protocol :: string

datatype hcall =
    Call_close
  | Call_void vcall
  | Call_send HandlerSendOptions
  | Call_sendDataChannel HandlerSendDataChannelOptions
  | Call_receive "HandlerReceiveOptions list"
  | Call_receiveDataChannel HandlerReceiveDataChannelOptions
  | Call_getTransportStats
  | Call_getSenderStats string
  | Call_getReceiverStats string

record 'o HandlerSendResult =
  res_localId :: string
  res_rtpParameters :: 'o
  res_rtpSender :: string

record 'o HandlerSendDataChannelResult =
  res_dataChannel :: string
  res_sctpStreamParameters :: 'o

text \<open>
  The handler is implemented outside these files, so it is a parameter: a state \<open>'h\<close> of
  its own and, for each method the transports call, what the method answers (a failure
  or a result) and the handler's next state. A method that is handed a parameter object
  may write to it: it gets the object's contents and returns the new contents.
  \<^verbatim>\<open>receive\<close> is always called with a list of one request here, so it is given that request.
  A \<^verbatim>\<open>HandlerReceiveResult\<close> and a data channel are opaque handles (strings).
\<close>

record ('h, 'o) handler_impl =
  handler_close :: "'h \<Rightarrow> error option \<times> 'h"
  handler_void :: "'h \<Rightarrow> vcall \<Rightarrow> error option \<times> 'h"
  handler_send :: "'h \<Rightarrow> HandlerSendOptions \<Rightarrow> (error + 'o HandlerSendResult) \<times> 'h"
  handler_sendDataChannel ::
    "'h \<Rightarrow> HandlerSendDataChannelOptions \<Rightarrow> (error + 'o HandlerSendDataChannelResult) \<times> 'h"
  handler_receive ::
    "'h \<Rightarrow> HandlerReceiveOptions \<Rightarrow> 'o \<Rightarrow> (error + string list) \<times> 'h \<times> 'o"
  handler_receiveDataChannel ::
    "'h \<Rightarrow> HandlerReceiveDataChannelOptions \<Rightarrow> 'o \<Rightarrow> (error + string) \<times> 'h \<times> 'o"

text \<open>
  The functions of \<^verbatim>\<open>./ortc\<close> the transports call are parameters as well. Each may write to
  the object it is given (the validations fill in defaults), so each also returns the
  object's new contents; \<open>'c\<close> is the type of the extended RTP capabilities.
\<close>

record ('o, 'c) ortc_impl =
  canReceive :: "'o \<Rightarrow> 'c \<Rightarrow> bool \<times> 'o"
  validateRtpParameters :: "'o \<Rightarrow> error option \<times> 'o"
  validateSctpStreamParameters :: "'o \<Rightarrow> error option \<times> 'o"
  generateProbatorRtpParameters :: "'o \<Rightarrow> (error + 'o) \<times> 'o"

section \<open>Transport\<close>

text \<open>
  The fields of \<^verbatim>\<open>Transport\<close> and the one field \<^verbatim>\<open>RecvTransport\<close> adds
  (\<open>probatorConsumerCreated\<close>). \<open>handler\<close> is the state of the handler instance.
  Three fields record what the object does to its collaborators: \<open>stops\<close> counts the calls
  of \<^verbatim>\<open>_awaitQueue.stop()\<close>, \<open>emitted\<close> lists the notifications in the order they were emitted,
  \<open>calls\<close> lists the requests made to the handler.
\<close>

record ('h, 'c) transport =
  closed :: bool
  direction :: direction
  extendedRtpCapabilities :: 'c
  canProduceByKind :: "string \<Rightarrow> bool"
  maxSctpMessageSize :: "int option"
  handler :: 'h
  iceGatheringState :: IceGatheringState
  connectionState :: ConnectionState
  probatorConsumerCreated :: bool
  stops :: nat
  emitted :: "notification list"
  calls :: "hcall list"

text \<open>The constructor's assignments (the asynchronous \<^verbatim>\<open>handler.run\<close> is left out).\<close>

definition new_transport ::
  "direction \<Rightarrow> 'c \<Rightarrow> (string \<Rightarrow> bool) \<Rightarrow> int option \<Rightarrow> 'h \<Rightarrow> ('h, 'c) transport" where
  "new_transport dir caps can sctp h =
     \<lparr> closed = False, direction = dir, extendedRtpCapabilities = caps,
       canProduceByKind = can, maxSctpMessageSize = sctp, handler = h,
       iceGatheringState = Ice_new, connectionState = Conn_new,
       probatorConsumerCreated = False, stops = 0, emitted = [], calls = [] \<rparr>"

text \<open>
  \<^verbatim>\<open>close()\<close>. The second component is the exception that leaves the method, if any:
  \<^verbatim>\<open>this._handler.close()\<close> is called outside any \<^verbatim>\<open>try\<close>, so when it throws, the statements
  after it are not reached.
\<close>

definition close ::
  "('h, 'o) handler_impl \<Rightarrow> ('h, 'c) transport \<Rightarrow> ('h, 'c) transport \<times> error option" where
  "close H t =
     (if closed t then (t, None)
      else
        let t1 = t\<lparr>closed := True\<rparr>;
            t2 = t1\<lparr>stops := stops t1 + 1\<rparr>;
            (r, h') = handler_close H (handler t2);
            t3 = t2\<lparr>handler := h', calls := calls t2 @ [Call_close]\<rparr>
        in case r of
             Some e \<Rightarrow> (t3, Some e)
           | None \<Rightarrow>
               (t3\<lparr>connectionState := Conn_closed,
                   emitted := emitted t3 @ [Observer_close]\<rparr>, None))"

text \<open>The three listeners \<^verbatim>\<open>handleHandler()\<close> installs on the handler.\<close>

datatype connect_reply = Callback | Errback error

definition on_connect :: "('h, 'c) transport \<Rightarrow> connect_reply" where
  "on_connect t = (if closed t then Errback (InvalidStateError ''closed'') else Callback)"

definition on_icegatheringstatechange ::
  "IceGatheringState \<Rightarrow> ('h, 'c) transport \<Rightarrow> ('h, 'c) transport" where
  "on_icegatheringstatechange s t =
     (if s = iceGatheringState t then t
      else
        let t1 = t\<lparr>iceGatheringState := s\<rparr>
        in if \<not> closed t1 then t1\<lparr>emitted := emitted t1 @ [Icegatheringstatechange s]\<rparr>
           else t1)"

definition on_connectionstatechange ::
  "ConnectionState \<Rightarrow> ('h, 'c) transport \<Rightarrow> ('h, 'c) transport" where
  "on_connectionstatechange s t =
     (if s = connectionState t then t
      else
        let t1 = t\<lparr>connectionState := s\<rparr>
        in if \<not> closed t1 then t1\<lparr>emitted := emitted t1 @ [Connectionstatechange s]\<rparr>
           else t1)"

text \<open>
  What can happen to a transport's state from outside, one after the other: an event
  raised by the handler, or a local call of \<^verbatim>\<open>close()\<close> (whose exception, if any, goes to
  its caller).
\<close>

datatype stimulus =
    Handler_connect
  | Handler_icegatheringstatechange IceGatheringState
  | Handler_connectionstatechange ConnectionState
  | Local_close

fun step :: "('h, 'o) handler_impl \<Rightarrow> ('h, 'c) transport \<Rightarrow> stimulus \<Rightarrow> ('h, 'c) transport" where
  "step H t Handler_connect = t"
| "step H t (Handler_icegatheringstatechange s) = on_icegatheringstatechange s t"
| "step H t (Handler_connectionstatechange s) = on_connectionstatechange s t"
| "step H t Local_close = fst (close H t)"

definition run_stimuli ::
  "('h, 'o) handler_impl \<Rightarrow> ('h, 'c) transport \<Rightarrow> stimulus list \<Rightarrow> ('h, 'c) transport" where
  "run_stimuli H t xs = foldl (step H) t xs"

section \<open>Commands and the AwaitQueue\<close>

text \<open>
  Every task handed to \<^verbatim>\<open>_awaitQueue.push\<close> is a closure over the arguments of the operation
  that pushes it. \<open>command\<close> names these closures with what they capture; \<open>Cmd_void\<close> is a
  task that makes one \<^verbatim>\<open>Promise<void>\<close> call and returns its outcome. An operation that
  pushes returns the command and the task name it passes along.
\<close>

text \<open>
  An entry of the \<^verbatim>\<open>encodings\<close> array: \<^verbatim>\<open>null\<close>, \<^verbatim>\<open>undefined\<close>, or a value whose fields can be read
  (an object; a number or a string reads like an object without fields).
\<close>

datatype encoding_entry = Entry_null | Entry_undefined | Entry_object jsobject

datatype encodings_arg =
    Encodings_undefined
  | Encodings_not_array
  | Encodings_array "encoding_entry list"

datatype command =
    Cmd_void vcall
  | Cmd_produce MediaStreamTrack encodings_arg "jsobject option" "jsobject option"
  | Cmd_produceData bool "int option" "int option" string string
  | Cmd_consume string string ref "string option"
  | Cmd_consumeData ref string string

type_synonym enqueued = "command \<times> string"

datatype 'o result =
    Res_void
  | Res_send "'o HandlerSendResult"
  | Res_sendDataChannel "'o HandlerSendDataChannelResult"
  | Res_receive "string option"
  | Res_receiveDataChannel string

text \<open>
  \<^verbatim>\<open>AwaitQueue\<close> comes from the package \<^verbatim>\<open>awaitqueue\<close>; the transports only construct it and
  call \<^verbatim>\<open>push\<close> and \<^verbatim>\<open>stop\<close>. How the promise that \<^verbatim>\<open>push\<close> returns settles is therefore a
  parameter: as the task does, or with a failure of the queue's own, the task not having
  run or having run all the same. A task that runs is run to its end before anything
  else touches the transport.
\<close>

datatype queue_verdict =
    Settles_with_task
  | Rejects_unstarted error
  | Rejects_started error

definition push :: "queue_verdict \<Rightarrow> ('s \<Rightarrow> (error + 'a) \<times> 's) \<Rightarrow> 's \<Rightarrow> (error + 'a) \<times> 's" where
  "push v task s =
     (case v of
        Settles_with_task \<Rightarrow> task s
      | Rejects_unstarted e \<Rightarrow> (Inl e, s)
      | Rejects_started e \<Rightarrow> (Inl e, snd (task s)))"

section \<open>Operations of Transport\<close>

definition getStats :: "('h, 'c) transport \<Rightarrow> error + hcall" where
  "getStats t =
     (if closed t then Inl (InvalidStateError ''closed'') else Inr Call_getTransportStats)"

definition restartIce :: "('h, 'c) transport \<Rightarrow> jsobject option \<Rightarrow> error + enqueued" where
  "restartIce t iceParameters =
     (if closed t then Inl (InvalidStateError ''closed'')
      else case iceParameters of
             None \<Rightarrow> Inl (TypeError ''missing iceParameters'')
           | Some ice \<Rightarrow> Inr (Cmd_void (RestartIce ice), ''transport.restartIce()''))"

text \<open>\<open>None\<close> is an \<^verbatim>\<open>iceServers\<close> that is not an array.\<close>

definition updateIceServers ::
  "('h, 'c) transport \<Rightarrow> jsobject list option \<Rightarrow> error + enqueued" where
  "updateIceServers t iceServers =
     (if closed t then Inl (InvalidStateError ''closed'')
      else case iceServers of
             None \<Rightarrow> Inl (TypeError ''missing iceServers'')
           | Some servers \<Rightarrow>
               Inr (Cmd_void (UpdateIceServers servers), ''transport.updateIceServers()''))"

section \<open>SendTransport\<close>

record ProducerOptions =
  track :: "MediaStreamTrack option"
  encodings :: encodings_arg
  codecOptions :: "jsobject option"
  codec :: "jsobject option"
  stopTracks :: "bool option"
  disableTrackOnPause :: "bool option"
  zeroRtpOnPause :: "bool option"

record DataProducerOptions =
  dp_ordered :: "bool option"
  dp_maxPacketLifeTime :: "int option"
  dp_maxRetransmits :: "int option"
  dp_label :: "string option"
  dp_protocol :: "string option"

text \<open>A parameter's default value applies when the argument is \<^verbatim>\<open>undefined\<close>.\<close>

definition default :: "'a \<Rightarrow> 'a option \<Rightarrow> 'a" where
  "default d v = (case v of None \<Rightarrow> d | Some x \<Rightarrow> x)"

text \<open>The synchronous part of \<^verbatim>\<open>produce()\<close>: the checks, then the push.\<close>

definition produce :: "('h, 'c) transport \<Rightarrow> ProducerOptions \<Rightarrow> error + enqueued" where
  "produce t opts =
     (if closed t then Inl (InvalidStateError ''closed'')
      else case track opts of
             None \<Rightarrow> Inl (TypeError ''missing track'')
           | Some tr \<Rightarrow>
               if direction t \<noteq> Send then Inl (UnsupportedError ''not a sending Transport'')
               else if \<not> canProduceByKind t (track_kind tr)
                 then Inl (UnsupportedError (''cannot produce '' @ track_kind tr))
               else if track_readyState tr = Ended then Inl (InvalidStateError ''track ended'')
               else Inr (Cmd_produce tr (encodings opts) (codecOptions opts) (codec opts),
                         ''transport.produce()''))"

fun is_boolean :: "jsval \<Rightarrow> bool" where
  "is_boolean (JBoolean b) = True"
| "is_boolean v = False"

fun is_string :: "jsval \<Rightarrow> bool" where
  "is_string (JString s) = True"
| "is_string v = False"

fun is_number :: "jsval \<Rightarrow> bool" where
  "is_number (JNumber n) = True"
| "is_number v = False"

definition keep :: "(jsval \<Rightarrow> bool) \<Rightarrow> jsobject \<Rightarrow> string \<Rightarrow> jsobject" where
  "keep has_type encoding k = (if has_type (field encoding k) then [(k, field encoding k)] else [])"

definition normalizeEncoding :: "jsobject \<Rightarrow> jsobject" where
  "normalizeEncoding encoding =
     (''active'', JBoolean (field encoding ''active'' \<noteq> JBoolean False))
     # keep is_boolean encoding ''dtx''
     @ keep is_string encoding ''scalabilityMode''
     @ keep is_number encoding ''scaleResolutionDownBy''
     @ keep is_number encoding ''maxBitrate''
     @ keep is_number encoding ''maxFramerate''
     @ keep is_boolean encoding ''adaptivePtime''
     @ keep is_string encoding ''priority''
     @ keep is_string encoding ''networkPriority''"

text \<open>
  Reading \<^verbatim>\<open>encoding.active\<close> from \<^verbatim>\<open>null\<close> or \<^verbatim>\<open>undefined\<close> throws a \<open>TypeError\<close>; the wording of
  its message is the engine's (here V8's).
\<close>

definition cannot_read :: "string \<Rightarrow> error" where
  "cannot_read v =
     TypeError (''Cannot read properties of '' @ v @ '' (reading '' @ [CHR 0x27] @ ''active''
                @ [CHR 0x27] @ '')'')"

text \<open>The callback of \<^verbatim>\<open>encodings.map\<close>, entry by entry; the first entry that throws ends it.\<close>

fun normalizeEntries :: "encoding_entry list \<Rightarrow> error + jsobject list" where
  "normalizeEntries [] = Inr []"
| "normalizeEntries (Entry_null # es) = Inl (cannot_read ''null'')"
| "normalizeEntries (Entry_undefined # es) = Inl (cannot_read ''undefined'')"
| "normalizeEntries (Entry_object encoding # es) =
     (case normalizeEntries es of
        Inl e \<Rightarrow> Inl e
      | Inr normalized \<Rightarrow> Inr (normalizeEncoding encoding # normalized))"

fun normalizeEncodings :: "encodings_arg \<Rightarrow> error + jsobject list option" where
  "normalizeEncodings Encodings_not_array = Inl (TypeError ''encodings must be an array'')"
| "normalizeEncodings Encodings_undefined = Inr None"
| "normalizeEncodings (Encodings_array []) = Inr None"
| "normalizeEncodings (Encodings_array es) =
     (case normalizeEntries es of
        Inl e \<Rightarrow> Inl e
      | Inr normalized \<Rightarrow> Inr (Some normalized))"

text \<open>
  The task \<^verbatim>\<open>produce()\<close> pushes. When the validation of the returned parameters throws,
  \<^verbatim>\<open>stopSending\<close> is called, its own failure is ignored, and the validation's failure is
  thrown again.
\<close>

definition produce_task ::
  "('h, 'o) handler_impl \<Rightarrow> ('o, 'c) ortc_impl \<Rightarrow> MediaStreamTrack \<Rightarrow> encodings_arg \<Rightarrow>
   jsobject option \<Rightarrow> jsobject option \<Rightarrow> 'o list \<times> ('h, 'c) transport \<Rightarrow>
   (error + 'o result) \<times> 'o list \<times> ('h, 'c) transport" where
  "produce_task H R tr encs copts cdc st =
     (case st of (S, t) \<Rightarrow>
        case normalizeEncodings encs of
          Inl e \<Rightarrow> (Inl e, S, t)
        | Inr normalizedEncodings \<Rightarrow>
            let opts = \<lparr>send_track = tr, send_encodings = normalizedEncodings,
                        send_codecOptions = copts, send_codec = cdc\<rparr>;
                (r, h1) = handler_send H (handler t) opts;
                t1 = t\<lparr>handler := h1, calls := calls t @ [Call_send opts]\<rparr>
            in case r of
                 Inl e \<Rightarrow> (Inl e, S, t1)
               | Inr res \<Rightarrow>
                   (case validateRtpParameters R (res_rtpParameters res) of
                      (None, p) \<Rightarrow> (Inr (Res_send (res\<lparr>res_rtpParameters := p\<rparr>)), S, t1)
                    | (Some e, p) \<Rightarrow>
                        let c = StopSending (res_localId res);
                            (r2, h2) = handler_void H (handler t1) c
                        in (Inl e, S, t1\<lparr>handler := h2, calls := calls t1 @ [Call_void c]\<rparr>)))"

text \<open>
  The \<^verbatim>\<open>.catch\<close> that \<^verbatim>\<open>produce()\<close> chains to the pushed promise: on a rejection the track is
  stopped when \<^verbatim>\<open>stopTracks\<close> holds, and the failure is thrown again.
\<close>

definition produce_catch ::
  "bool \<Rightarrow> MediaStreamTrack option \<Rightarrow> error + 'a \<Rightarrow> (error + 'a) \<times> MediaStreamTrack option" where
  "produce_catch stop tr r =
     (case r of
        Inl e \<Rightarrow> (Inl e, if stop then map_option track_stop tr else tr)
      | Inr x \<Rightarrow> (Inr x, tr))"

definition produceData :: "('h, 'c) transport \<Rightarrow> DataProducerOptions \<Rightarrow> error + enqueued" where
  "produceData t opts =
     (if closed t then Inl (InvalidStateError ''closed'')
      else if direction t \<noteq> Send then Inl (UnsupportedError ''not a sending Transport'')
      else if \<not> truthy (maxSctpMessageSize t)
        then Inl (UnsupportedError ''SCTP not enabled by remote Transport'')
      else
        let ordered = default True (dp_ordered opts);
            ordered = (if truthy (dp_maxPacketLifeTime opts) \<or> truthy (dp_maxRetransmits opts)
                       then False else ordered)
        in Inr (Cmd_produceData ordered (dp_maxPacketLifeTime opts) (dp_maxRetransmits opts)
                  (default '''' (dp_label opts)) (default '''' (dp_protocol opts)),
                ''transport.produceData()''))"

definition produceData_task ::
  "('h, 'o) handler_impl \<Rightarrow> ('o, 'c) ortc_impl \<Rightarrow> bool \<Rightarrow> int option \<Rightarrow> int option \<Rightarrow>
   string \<Rightarrow> string \<Rightarrow> 'o list \<times> ('h, 'c) transport \<Rightarrow>
   (error + 'o result) \<times> 'o list \<times> ('h, 'c) transport" where
  "produceData_task H R ordered maxPacketLifeTime maxRetransmits lbl protocol st =
     (case st of (S, t) \<Rightarrow>
        let opts = \<lparr>sdc_ordered = ordered, sdc_maxPacketLifeTime = maxPacketLifeTime,
                    sdc_maxRetransmits = maxRetransmits, sdc_label = lbl,
                    sdc_protocol = protocol\<rparr>;
            (r, h1) = handler_sendDataChannel H (handler t) opts;
            t1 = t\<lparr>handler := h1, calls := calls t @ [Call_sendDataChannel opts]\<rparr>
        in case r of
             Inl e \<Rightarrow> (Inl e, S, t1)
           | Inr res \<Rightarrow>
               (case validateSctpStreamParameters R (res_sctpStreamParameters res) of
                  (Some e, p) \<Rightarrow> (Inl e, S, t1)
                | (None, p) \<Rightarrow>
                    (Inr (Res_sendDataChannel (res\<lparr>res_sctpStreamParameters := p\<rparr>)), S, t1)))"

definition closeProducer :: "('h, 'c) transport \<Rightarrow> string \<Rightarrow> error + enqueued" where
  "closeProducer t localId = Inr (Cmd_void (StopSending localId), ''producer @close event'')"

definition pauseProducer :: "('h, 'c) transport \<Rightarrow> string \<Rightarrow> error + enqueued" where
  "pauseProducer t localId = Inr (Cmd_void (PauseSending localId), ''producer @pause event'')"

definition resumeProducer :: "('h, 'c) transport \<Rightarrow> string \<Rightarrow> error + enqueued" where
  "resumeProducer t localId = Inr (Cmd_void (ResumeSending localId), ''producer @resume event'')"

definition replaceTrack ::
  "('h, 'c) transport \<Rightarrow> string \<Rightarrow> MediaStreamTrack option \<Rightarrow> error + enqueued" where
  "replaceTrack t localId tr =
     Inr (Cmd_void (ReplaceTrack localId tr), ''producer @replacetrack event'')"

definition setMaxSpatialLayer :: "('h, 'c) transport \<Rightarrow> string \<Rightarrow> int \<Rightarrow> error + enqueued" where
  "setMaxSpatialLayer t localId spatialLayer =
     Inr (Cmd_void (SetMaxSpatialLayer localId spatialLayer),
          ''producer @setmaxspatiallayer event'')"

definition setRtpEncodingParameters ::
  "('h, 'c) transport \<Rightarrow> string \<Rightarrow> jsobject \<Rightarrow> error + enqueued" where
  "setRtpEncodingParameters t localId params =
     Inr (Cmd_void (SetRtpEncodingParameters localId params),
          ''producer @setrtpencodingparameters event'')"

definition getProducerStats :: "('h, 'c) transport \<Rightarrow> string \<Rightarrow> error + hcall" where
  "getProducerStats t localId =
     (if closed t then Inl (InvalidStateError ''closed'') else Inr (Call_getSenderStats localId))"

section \<open>RecvTransport\<close>

record ConsumerOptions =
  c_id :: "string option"
  c_producerId :: "string option"
  c_kind :: "string option"
  c_rtpParameters :: ref
  c_streamId :: "string option"

record DataConsumerOptions =
  dc_id :: "string option"
  dc_dataProducerId :: "string option"
  dc_sctpStreamParameters :: ref
  dc_label :: "string option"
  dc_protocol :: "string option"

text \<open>
  Modelled from the spec: \<^verbatim>\<open>utils.clone\<close> (module \<^verbatim>\<open>./utils\<close>) is not among these files, and
  the specification speaks of it only as copying value data. It is taken to return a
  deep copy, which is what its callers rely on (the constructor deletes fields from the
  clone of \<^verbatim>\<open>additionalSettings\<close>): a new object, at a reference that was not in use, with
  the contents of the given one.
\<close>

definition clone :: "'o list \<Rightarrow> ref \<Rightarrow> 'o list \<times> ref" where
  "clone S a = (S @ [S ! a], length S)"

text \<open>How a template literal prints an optional string.\<close>

definition template :: "string option \<Rightarrow> string" where
  "template v = (case v of None \<Rightarrow> ''undefined'' | Some s \<Rightarrow> s)"

text \<open>
  The synchronous part of \<^verbatim>\<open>consume()\<close>. \<open>None\<close> for \<^verbatim>\<open>id\<close>, \<^verbatim>\<open>producerId\<close> or \<^verbatim>\<open>kind\<close> is a value
  that is not a string. The second component is the store afterwards.
\<close>

definition consume ::
  "('o, 'c) ortc_impl \<Rightarrow> 'o list \<Rightarrow> ('h, 'c) transport \<Rightarrow> ConsumerOptions \<Rightarrow>
   (error + enqueued) \<times> 'o list" where
  "consume R S t opts =
     (let (S1, rtpParameters) = clone S (c_rtpParameters opts)
      in if closed t then (Inl (InvalidStateError ''closed''), S1)
         else if direction t \<noteq> Recv
           then (Inl (UnsupportedError ''not a receiving Transport''), S1)
         else case c_id opts of
           None \<Rightarrow> (Inl (TypeError ''missing id''), S1)
         | Some i \<Rightarrow>
            (case c_producerId opts of
               None \<Rightarrow> (Inl (TypeError ''missing producerId''), S1)
             | Some producerId \<Rightarrow>
                 if c_kind opts \<noteq> Some ''audio'' \<and> c_kind opts \<noteq> Some ''video''
                 then (Inl (TypeError (''invalid kind '' @ [CHR 0x27] @ template (c_kind opts)
                                        @ [CHR 0x27])), S1)
                 else
                   let (canConsume, p) =
                         canReceive R (S1 ! rtpParameters) (extendedRtpCapabilities t);
                       S2 = S1[rtpParameters := p]
                   in if \<not> canConsume
                      then (Inl (UnsupportedError ''cannot consume this Producer''), S2)
                      else (Inr (Cmd_consume i (template (c_kind opts)) rtpParameters
                                   (c_streamId opts),
                                 ''transport.createConsumer()''), S2)))"

text \<open>The element \<^verbatim>\<open>results[0]\<close>; \<open>None\<close> is \<^verbatim>\<open>undefined\<close>, what an empty array gives.\<close>

definition first_result :: "'a list \<Rightarrow> 'a option" where
  "first_result results = (case results of [] \<Rightarrow> None | x # xs \<Rightarrow> Some x)"

text \<open>
  The task \<^verbatim>\<open>consume()\<close> pushes. The probator's parameters are a new object, so they get a
  reference of their own. What the \<^verbatim>\<open>try\<close> block throws is caught and logged.
\<close>

definition consume_task ::
  "('h, 'o) handler_impl \<Rightarrow> ('o, 'c) ortc_impl \<Rightarrow> string \<Rightarrow> string \<Rightarrow> ref \<Rightarrow>
   string option \<Rightarrow> 'o list \<times> ('h, 'c) transport \<Rightarrow>
   (error + 'o result) \<times> 'o list \<times> ('h, 'c) transport" where
  "consume_task H R i k rtpParameters streamId st =
     (case st of (S, t) \<Rightarrow>
        let opts = \<lparr>recv_trackId = i, recv_kind = k, recv_rtpParameters = rtpParameters,
                    recv_streamId = streamId\<rparr>;
            (r, h1, p1) = handler_receive H (handler t) opts (S ! rtpParameters);
            S1 = S[rtpParameters := p1];
            t1 = t\<lparr>handler := h1, calls := calls t @ [Call_receive [opts]]\<rparr>
        in case r of
             Inl e \<Rightarrow> (Inl e, S1, t1)
           | Inr results \<Rightarrow>
               let recvResult = first_result results
               in if \<not> probatorConsumerCreated t1 \<and> k = ''video'' then
                    (case generateProbatorRtpParameters R (S1 ! rtpParameters) of
                       (Inl e, p2) \<Rightarrow> (Inr (Res_receive recvResult), S1[rtpParameters := p2], t1)
                     | (Inr probator, p2) \<Rightarrow>
                         let S2 = S1[rtpParameters := p2];
                             probatorRtpParameters = length S2;
                             popts = \<lparr>recv_trackId = ''probator'', recv_kind = ''video'',
                                      recv_rtpParameters = probatorRtpParameters,
                                      recv_streamId = None\<rparr>;
                             (r2, h2, p3) = handler_receive H (handler t1) popts probator;
                             S3 = S2 @ [p3];
                             t2 = t1\<lparr>handler := h2, calls := calls t1 @ [Call_receive [popts]]\<rparr>
                         in case r2 of
                              Inl e \<Rightarrow> (Inr (Res_receive recvResult), S3, t2)
                            | Inr created \<Rightarrow>
                                (Inr (Res_receive recvResult), S3,
                                 t2\<lparr>probatorConsumerCreated := True\<rparr>))
                  else (Inr (Res_receive recvResult), S1, t1))"

definition consumeData ::
  "('o, 'c) ortc_impl \<Rightarrow> 'o list \<Rightarrow> ('h, 'c) transport \<Rightarrow> DataConsumerOptions \<Rightarrow>
   (error + enqueued) \<times> 'o list" where
  "consumeData R S t opts =
     (let (S1, sctpStreamParameters) = clone S (dc_sctpStreamParameters opts)
      in if closed t then (Inl (InvalidStateError ''closed''), S1)
         else if direction t \<noteq> Recv
           then (Inl (UnsupportedError ''not a receiving Transport''), S1)
         else if \<not> truthy (maxSctpMessageSize t)
           then (Inl (UnsupportedError ''SCTP not enabled by remote Transport''), S1)
         else case dc_id opts of
           None \<Rightarrow> (Inl (TypeError ''missing id''), S1)
         | Some i \<Rightarrow>
            (case dc_dataProducerId opts of
               None \<Rightarrow> (Inl (TypeError ''missing dataProducerId''), S1)
             | Some dataProducerId \<Rightarrow>
                 (case validateSctpStreamParameters R (S1 ! sctpStreamParameters) of
                    (Some e, p) \<Rightarrow> (Inl e, S1[sctpStreamParameters := p])
                  | (None, p) \<Rightarrow>
                      (Inr (Cmd_consumeData sctpStreamParameters (default '''' (dc_label opts))
                              (default '''' (dc_protocol opts)),
                            ''transport.consumeData()''),
                       S1[sctpStreamParameters := p]))))"

definition consumeData_task ::
  "('h, 'o) handler_impl \<Rightarrow> ref \<Rightarrow> string \<Rightarrow> string \<Rightarrow> 'o list \<times> ('h, 'c) transport \<Rightarrow>
   (error + 'o result) \<times> 'o list \<times> ('h, 'c) transport" where
  "consumeData_task H sctpStreamParameters lbl protocol st =
     (case st of (S, t) \<Rightarrow>
        let opts = \<lparr>rdc_sctpStreamParameters = sctpStreamParameters, rdc_label = lbl,
                    rdc_protocol = protocol\<rparr>;
            (r, h1, p1) = handler_receiveDataChannel H (handler t) opts (S ! sctpStreamParameters);
            S1 = S[sctpStreamParameters := p1];
            t1 = t\<lparr>handler := h1, calls := calls t @ [Call_receiveDataChannel opts]\<rparr>
        in case r of
             Inl e \<Rightarrow> (Inl e, S1, t1)
           | Inr dataChannel \<Rightarrow> (Inr (Res_receiveDataChannel dataChannel), S1, t1))"

definition closeConsumer :: "('h, 'c) transport \<Rightarrow> string \<Rightarrow> error + enqueued" where
  "closeConsumer t localId =
     (if closed t then Inl (InvalidStateError ''closed'')
      else Inr (Cmd_void (StopReceiving [localId]), ''transport.closeConsumer''))"

definition pauseConsumer :: "('h, 'c) transport \<Rightarrow> string \<Rightarrow> error + enqueued" where
  "pauseConsumer t localId =
     (if closed t then Inl (InvalidStateError ''closed'')
      else Inr (Cmd_void (PauseReceiving [localId]), ''transport.pauseConsumer''))"

definition resumeConsumer :: "('h, 'c) transport \<Rightarrow> string \<Rightarrow> error + enqueued" where
  "resumeConsumer t localId =
     (if closed t then Inl (InvalidStateError ''closed'')
      else Inr (Cmd_void (ResumeReceiving [localId]), ''transport.resumeConsumer''))"

definition getConsumerStats :: "('h, 'c) transport \<Rightarrow> string \<Rightarrow> error + hcall" where
  "getConsumerStats t localId =
     (if closed t then Inl (InvalidStateError ''closed'') else Inr (Call_getReceiverStats localId))"

section \<open>Running what was pushed\<close>

text \<open>A task that awaits one \<^verbatim>\<open>Promise<void>\<close> method of the handler.\<close>

definition void_task ::
  "('h, 'o) handler_impl \<Rightarrow> vcall \<Rightarrow> 'o list \<times> ('h, 'c) transport \<Rightarrow>
   (error + 'o result) \<times> 'o list \<times> ('h, 'c) transport" where
  "void_task H c st =
     (case st of (S, t) \<Rightarrow>
        let (r, h1) = handler_void H (handler t) c;
            t1 = t\<lparr>handler := h1, calls := calls t @ [Call_void c]\<rparr>
        in case r of
             Some e \<Rightarrow> (Inl e, S, t1)
           | None \<Rightarrow> (Inr Res_void, S, t1))"

fun run_command ::
  "('h, 'o) handler_impl \<Rightarrow> ('o, 'c) ortc_impl \<Rightarrow> command \<Rightarrow> 'o list \<times> ('h, 'c) transport \<Rightarrow>
   (error + 'o result) \<times> 'o list \<times> ('h, 'c) transport" where
  "run_command H R (Cmd_void c) st = void_task H c st"
| "run_command H R (Cmd_produce tr encs copts cdc) st = produce_task H R tr encs copts cdc st"
| "run_command H R (Cmd_produceData ordered lifetime retransmits lbl protocol) st =
     produceData_task H R ordered lifetime retransmits lbl protocol st"
| "run_command H R (Cmd_consume i k rtpParameters streamId) st =
     consume_task H R i k rtpParameters streamId st"
| "run_command H R (Cmd_consumeData sctpStreamParameters lbl protocol) st =
     consumeData_task H sctpStreamParameters lbl protocol st"

text \<open>The commands of a list run one after the other, each to its end.\<close>

definition run_commands ::
  "('h, 'o) handler_impl \<Rightarrow> ('o, 'c) ortc_impl \<Rightarrow> 'o list \<times> ('h, 'c) transport \<Rightarrow>
   command list \<Rightarrow> 'o list \<times> ('h, 'c) transport" where
  "run_commands H R st cs = foldl (\<lambda>s c. snd (run_command H R c s)) st cs"

text \<open>
  What the caller of an operation that pushes gets: the synchronous failure, or the way
  the pushed promise settles.
\<close>

definition settle ::
  "('h, 'o) handler_impl \<Rightarrow> ('o, 'c) ortc_impl \<Rightarrow> queue_verdict \<Rightarrow>
   'o list \<times> ('h, 'c) transport \<Rightarrow> error + enqueued \<Rightarrow>
   (error + 'o result) \<times> 'o list \<times> ('h, 'c) transport" where
  "settle H R v st r =
     (case r of
        Inl e \<Rightarrow> (Inl e, st)
      | Inr (cmd, name) \<Rightarrow> push v (run_command H R cmd) st)"

text \<open>
  A whole call of \<^verbatim>\<open>produce()\<close>: the synchronous checks, the push, and the \<^verbatim>\<open>.catch\<close> chained
  to the pushed promise only. The result is what the caller gets, the track afterwards,
  the store and the transport.
\<close>

definition produce_call ::
  "('h, 'o) handler_impl \<Rightarrow> ('o, 'c) ortc_impl \<Rightarrow> queue_verdict \<Rightarrow>
   'o list \<times> ('h, 'c) transport \<Rightarrow> ProducerOptions \<Rightarrow>
   (error + 'o result) \<times> MediaStreamTrack option \<times> 'o list \<times> ('h, 'c) transport" where
  "produce_call H R v st opts =
     (case produce (snd st) opts of
        Inl e \<Rightarrow> (Inl e, track opts, st)
      | Inr (cmd, name) \<Rightarrow>
          let (r, st1) = push v (run_command H R cmd) st;
              (r1, tr1) = produce_catch (default True (stopTracks opts)) (track opts) r
          in (r1, tr1, st1))"

definition produceData_call ::
  "('h, 'o) handler_impl \<Rightarrow> ('o, 'c) ortc_impl \<Rightarrow> queue_verdict \<Rightarrow>
   'o list \<times> ('h, 'c) transport \<Rightarrow> DataProducerOptions \<Rightarrow>
   (error + 'o result) \<times> 'o list \<times> ('h, 'c) transport" where
  "produceData_call H R v st opts = settle H R v st (produceData (snd st) opts)"

definition consume_call ::
  "('h, 'o) handler_impl \<Rightarrow> ('o, 'c) ortc_impl \<Rightarrow> queue_verdict \<Rightarrow>
   'o list \<times> ('h, 'c) transport \<Rightarrow> ConsumerOptions \<Rightarrow>
   (error + 'o result) \<times> 'o list \<times> ('h, 'c) transport" where
  "consume_call H R v st opts =
     (case st of (S, t) \<Rightarrow>
        let (r, S1) = consume R S t opts in settle H R v (S1, t) r)"

definition consumeData_call ::
  "('h, 'o) handler_impl \<Rightarrow> ('o, 'c) ortc_impl \<Rightarrow> queue_verdict \<Rightarrow>
   'o list \<times> ('h, 'c) transport \<Rightarrow> DataConsumerOptions \<Rightarrow>
   (error + 'o result) \<times> 'o list \<times> ('h, 'c) transport" where
  "consumeData_call H R v st opts =
     (case st of (S, t) \<Rightarrow>
        let (r, S1) = consumeData R S t opts in settle H R v (S1, t) r)"

section \<open>The operations side by side\<close>

text \<open>
  Every method of the three classes (the property accessors aside), with its
  arguments, and what its synchronous part does: it throws (or returns a rejected
  promise), it pushes a command, it calls the handler directly, or it just returns.
  \<^verbatim>\<open>run()\<close> returns the promise the constructor stored; \<^verbatim>\<open>close()\<close> returns at once on a closed
  transport and calls the handler's \<^verbatim>\<open>close\<close> otherwise.
\<close>

datatype operation =
    Op_run
  | Op_close
  | Op_getStats
  | Op_restartIce "jsobject option"
  | Op_updateIceServers "jsobject list option"
  | Op_produce ProducerOptions
  | Op_produceData DataProducerOptions
  | Op_closeProducer string
  | Op_pauseProducer string
  | Op_resumeProducer string
  | Op_replaceTrack string "MediaStreamTrack option"
  | Op_setMaxSpatialLayer string int
  | Op_setRtpEncodingParameters string jsobject
  | Op_getProducerStats string
  | Op_consume ConsumerOptions
  | Op_consumeData DataConsumerOptions
  | Op_closeConsumer string
  | Op_pauseConsumer string
  | Op_resumeConsumer string
  | Op_getConsumerStats string

datatype sync_result = Throws error | Pushes command string | Calls hcall | Returns

definition pushed :: "error + enqueued \<Rightarrow> sync_result" where
  "pushed r = (case r of Inl e \<Rightarrow> Throws e | Inr (cmd, name) \<Rightarrow> Pushes cmd name)"

definition called :: "error + hcall \<Rightarrow> sync_result" where
  "called r = (case r of Inl e \<Rightarrow> Throws e | Inr c \<Rightarrow> Calls c)"

fun invoke ::
  "('o, 'c) ortc_impl \<Rightarrow> 'o list \<Rightarrow> ('h, 'c) transport \<Rightarrow> operation \<Rightarrow> sync_result" where
  "invoke R S t Op_run = Returns"
| "invoke R S t Op_close = (if closed t then Returns else Calls Call_close)"
| "invoke R S t Op_getStats = called (getStats t)"
| "invoke R S t (Op_restartIce iceParameters) = pushed (restartIce t iceParameters)"
| "invoke R S t (Op_updateIceServers iceServers) = pushed (updateIceServers t iceServers)"
| "invoke R S t (Op_produce opts) = pushed (produce t opts)"
| "invoke R S t (Op_produceData opts) = pushed (produceData t opts)"
| "invoke R S t (Op_closeProducer localId) = pushed (closeProducer t localId)"
| "invoke R S t (Op_pauseProducer localId) = pushed (pauseProducer t localId)"
| "invoke R S t (Op_resumeProducer localId) = pushed (resumeProducer t localId)"
| "invoke R S t (Op_replaceTrack localId tr) = pushed (replaceTrack t localId tr)"
| "invoke R S t (Op_setMaxSpatialLayer localId n) = pushed (setMaxSpatialLayer t localId n)"
| "invoke R S t (Op_setRtpEncodingParameters localId params) =
     pushed (setRtpEncodingParameters t localId params)"
| "invoke R S t (Op_getProducerStats localId) = called (getProducerStats t localId)"
| "invoke R S t (Op_consume opts) = pushed (fst (consume R S t opts))"
| "invoke R S t (Op_consumeData opts) = pushed (fst (consumeData R S t opts))"
| "invoke R S t (Op_closeConsumer localId) = pushed (closeConsumer t localId)"
| "invoke R S t (Op_pauseConsumer localId) = pushed (pauseConsumer t localId)"
| "invoke R S t (Op_resumeConsumer localId) = pushed (resumeConsumer t localId)"
| "invoke R S t (Op_getConsumerStats localId) = called (getConsumerStats t localId)"

text \<open>
  The six methods of \<^verbatim>\<open>SendTransport\<close> that act on an existing producer; they push without
  looking at the closed flag.
\<close>

fun producer_lifecycle :: "operation \<Rightarrow> bool" where
  "producer_lifecycle (Op_closeProducer localId) = True"
| "producer_lifecycle (Op_pauseProducer localId) = True"
| "producer_lifecycle (Op_resumeProducer localId) = True"
| "producer_lifecycle (Op_replaceTrack localId tr) = True"
| "producer_lifecycle (Op_setMaxSpatialLayer localId n) = True"
| "producer_lifecycle (Op_setRtpEncodingParameters localId params) = True"
| "producer_lifecycle other = False"



section \<open>Handlers and helpers to run the definitions on\<close>

text \<open>
  A handler that fulfils every request (its state counts the requests), one that fails
  every request with a given failure, and one that fulfils the requests for a caller's
  stream and fails the ones for the probator.
\<close>

definition quiet_handler :: "(nat, nat) handler_impl" where
  "quiet_handler =
     \<lparr> handler_close = (\<lambda>h. (None, Suc h)),
       handler_void = (\<lambda>h c. (None, Suc h)),
       handler_send = (\<lambda>h opts.
         (Inr \<lparr>res_localId = ''local'', res_rtpParameters = 0, res_rtpSender = ''sender''\<rparr>,
          Suc h)),
       handler_sendDataChannel = (\<lambda>h opts.
         (Inr \<lparr>res_dataChannel = ''channel'', res_sctpStreamParameters = 0\<rparr>, Suc h)),
       handler_receive = (\<lambda>h opts p. (Inr [recv_trackId opts], Suc h, p)),
       handler_receiveDataChannel = (\<lambda>h opts p. (Inr ''channel'', Suc h, p)) \<rparr>"

definition broken_handler :: "error \<Rightarrow> (nat, nat) handler_impl" where
  "broken_handler e =
     \<lparr> handler_close = (\<lambda>h. (Some e, Suc h)),
       handler_void = (\<lambda>h c. (Some e, Suc h)),
       handler_send = (\<lambda>h opts. (Inl e, Suc h)),
       handler_sendDataChannel = (\<lambda>h opts. (Inl e, Suc h)),
       handler_receive = (\<lambda>h opts p. (Inl e, Suc h, p)),
       handler_receiveDataChannel = (\<lambda>h opts p. (Inl e, Suc h, p)) \<rparr>"

definition no_probator_handler :: "error \<Rightarrow> (nat, nat) handler_impl" where
  "no_probator_handler e =
     quiet_handler\<lparr> handler_receive := (\<lambda>h opts p.
       if recv_trackId opts = ''probator'' then (Inl e, Suc h, p)
       else (Inr [recv_trackId opts], Suc h, p)) \<rparr>"

text \<open>
  Helper functions over parameter objects that are numbers: every object can be
  received, the validations write \<open>1\<close> into the object, the probator's parameters are
  the successor.
\<close>

definition plain_ortc :: "(nat, unit) ortc_impl" where
  "plain_ortc =
     \<lparr> canReceive = (\<lambda>p caps. (True, p)),
       validateRtpParameters = (\<lambda>p. (None, 1)),
       validateSctpStreamParameters = (\<lambda>p. (None, 1)),
       generateProbatorRtpParameters = (\<lambda>p. (Inr (Suc p), p)) \<rparr>"

definition send_transport :: "(nat, unit) transport" where
  "send_transport = new_transport Send () (\<lambda>k. True) (Some 262144) 0"

definition recv_transport :: "(nat, unit) transport" where
  "recv_transport = new_transport Recv () (\<lambda>k. True) (Some 262144) 0"

definition live_track :: "string \<Rightarrow> MediaStreamTrack" where
  "live_track k = \<lparr>track_kind = k, track_readyState = Live\<rparr>"

text \<open>Options and requests the statements below are about.\<close>

definition consumer_request :: "string \<Rightarrow> string \<Rightarrow> ref \<Rightarrow> string option \<Rightarrow> hcall" where
  "consumer_request i k rtpParameters streamId =
     Call_receive [\<lparr>recv_trackId = i, recv_kind = k, recv_rtpParameters = rtpParameters,
                    recv_streamId = streamId\<rparr>]"

definition probator_options :: "ref \<Rightarrow> HandlerReceiveOptions" where
  "probator_options q =
     \<lparr>recv_trackId = ''probator'', recv_kind = ''video'', recv_rtpParameters = q,
      recv_streamId = None\<rparr>"

fun consume_command :: "string \<times> string \<times> ref \<times> string option \<Rightarrow> command" where
  "consume_command (i, k, rtpParameters, streamId) = Cmd_consume i k rtpParameters streamId"

fun consume_request :: "string \<times> string \<times> ref \<times> string option \<Rightarrow> hcall" where
  "consume_request (i, k, rtpParameters, streamId) = consumer_request i k rtpParameters streamId"

definition video_consumer :: ConsumerOptions where
  "video_consumer =
     \<lparr>c_id = Some ''c1'', c_producerId = Some ''p1'', c_kind = Some ''video'',
      c_rtpParameters = 0, c_streamId = None\<rparr>"

definition data_consumer :: DataConsumerOptions where
  "data_consumer =
     \<lparr>dc_id = Some ''d1'', dc_dataProducerId = Some ''p2'', dc_sctpStreamParameters = 0,
      dc_label = None, dc_protocol = None\<rparr>"

definition audio_producer :: ProducerOptions where
  "audio_producer =
     \<lparr>track = Some (live_track ''audio''), encodings = Encodings_undefined, codecOptions = None,
      codec = None, stopTracks = None, disableTrackOnPause = None, zeroRtpOnPause = None\<rparr>"

definition zero_retransmits :: DataProducerOptions where
  "zero_retransmits =
     \<lparr>dp_ordered = None, dp_maxPacketLifeTime = None, dp_maxRetransmits = Some 0,
      dp_label = None, dp_protocol = None\<rparr>"

section \<open>Closing and the state notifications\<close>

lemmas fixtures =
  quiet_handler_def broken_handler_def no_probator_handler_def plain_ortc_def
  send_transport_def recv_transport_def new_transport_def live_track_def

lemmas task_defs =
  run_commands_def consume_task_def first_result_def consumer_request_def probator_options_def

lemma closed_close: "closed t \<Longrightarrow> close H t = (t, None)"
  by (simp add: close_def)

lemma close_sets_closed: "closed (fst (close H t))"
  by (simp add: close_def Let_def split: prod.splits option.splits)

lemma close_open:
  "\<not> closed t \<Longrightarrow>
   close H t =
     (case fst (handler_close H (handler t)) of
        Some e \<Rightarrow>
          (t\<lparr>closed := True, stops := stops t + 1, handler := snd (handler_close H (handler t)),
             calls := calls t @ [Call_close]\<rparr>, Some e)
      | None \<Rightarrow>
          (t\<lparr>closed := True, stops := stops t + 1, handler := snd (handler_close H (handler t)),
             calls := calls t @ [Call_close], connectionState := Conn_closed,
             emitted := emitted t @ [Observer_close]\<rparr>, None))"
  by (simp add: close_def Let_def split: prod.splits option.splits)

lemma step_closed: "closed t \<Longrightarrow> closed (step H t x)"
  by (cases x)
     (simp_all add: on_icegatheringstatechange_def on_connectionstatechange_def Let_def closed_close)

lemma step_closed_emitted: "closed t \<Longrightarrow> emitted (step H t x) = emitted t"
  by (cases x)
     (simp_all add: on_icegatheringstatechange_def on_connectionstatechange_def Let_def closed_close)

lemma run_stimuli_closed:
  "closed t \<Longrightarrow> closed (run_stimuli H t xs) \<and> emitted (run_stimuli H t xs) = emitted t"
  unfolding run_stimuli_def
  by (induction xs arbitrary: t) (simp_all add: step_closed step_closed_emitted)

lemma step_keeps_connectionState:
  "closed t \<Longrightarrow> (\<And>s. x = Handler_connectionstatechange s \<Longrightarrow> s = connectionState t) \<Longrightarrow>
   connectionState (step H t x) = connectionState t"
  by (cases x)
     (simp_all add: on_icegatheringstatechange_def on_connectionstatechange_def Let_def closed_close)

lemma run_stimuli_keeps_connectionState:
  "closed t \<Longrightarrow> \<forall>s. Handler_connectionstatechange s \<in> set xs \<longrightarrow> s = connectionState t \<Longrightarrow>
   connectionState (run_stimuli H t xs) = connectionState t"
  unfolding run_stimuli_def
proof (induction xs arbitrary: t)
  case Nil
  then show ?case by simp
next
  case (Cons x xs)
  have c: "closed (step H t x)" using Cons.prems(1) by (rule step_closed)
  have k: "connectionState (step H t x) = connectionState t"
    using Cons.prems by (intro step_keeps_connectionState) auto
  have "connectionState (foldl (step H) (step H t x) xs) = connectionState (step H t x)"
    using Cons.prems(2) k by (intro Cons.IH c) auto
  then show ?case using k by simp
qed

text \<open>
  C6, as the code has it. A call of \<^verbatim>\<open>close()\<close> on a closed transport changes nothing and
  returns. The first call sets the closed flag, stops the AwaitQueue once and asks the
  handler to close; when the handler's \<^verbatim>\<open>close\<close> returns, the connection state becomes
  \<^verbatim>\<open>closed\<close>, the observer's \<^verbatim>\<open>close\<close> is emitted once and the call returns; when the handler's
  \<^verbatim>\<open>close\<close> throws, that failure leaves \<^verbatim>\<open>close()\<close>, and the connection state and the list of
  notifications are as they were before the call. A second call right after is a
  no-op, and nothing that happens to the transport later emits anything.
\<close>

theorem close_first_and_later_calls:
  "(closed t \<longrightarrow> close H t = (t, None)) \<and>
   (\<not> closed t \<longrightarrow>
      closed (fst (close H t)) \<and>
      stops (fst (close H t)) = stops t + 1 \<and>
      calls (fst (close H t)) = calls t @ [Call_close] \<and>
      handler (fst (close H t)) = snd (handler_close H (handler t))) \<and>
   (\<not> closed t \<and> fst (handler_close H (handler t)) = None \<longrightarrow>
      snd (close H t) = None \<and>
      connectionState (fst (close H t)) = Conn_closed \<and>
      emitted (fst (close H t)) = emitted t @ [Observer_close]) \<and>
   (\<not> closed t \<and> fst (handler_close H (handler t)) = Some e \<longrightarrow>
      snd (close H t) = Some e \<and>
      connectionState (fst (close H t)) = connectionState t \<and>
      emitted (fst (close H t)) = emitted t) \<and>
   close H (fst (close H t)) = (fst (close H t), None) \<and>
   emitted (run_stimuli H (fst (close H t)) xs) = emitted (fst (close H t))"
  by (auto simp: close_open closed_close close_sets_closed run_stimuli_closed split: option.splits)

theorem close_first_and_later_calls_witness:
  "\<not> closed recv_transport \<and>
   fst (handler_close quiet_handler (handler recv_transport)) = None \<and>
   closed (fst (close quiet_handler recv_transport)) \<and>
   stops (fst (close quiet_handler recv_transport)) = 1 \<and>
   calls (fst (close quiet_handler recv_transport)) = [Call_close] \<and>
   snd (close quiet_handler recv_transport) = None \<and>
   connectionState (fst (close quiet_handler recv_transport)) = Conn_closed \<and>
   emitted (fst (close quiet_handler recv_transport)) = [Observer_close] \<and>
   close quiet_handler (fst (close quiet_handler recv_transport)) =
     (fst (close quiet_handler recv_transport), None) \<and>
   emitted (run_stimuli quiet_handler (fst (close quiet_handler recv_transport))
              [Local_close, Handler_connectionstatechange Conn_failed, Local_close]) =
     [Observer_close] \<and>
   fst (handler_close (broken_handler (Error ''release failed'')) (handler recv_transport)) =
     Some (Error ''release failed'') \<and>
   snd (close (broken_handler (Error ''release failed'')) recv_transport) =
     Some (Error ''release failed'') \<and>
   connectionState (fst (close (broken_handler (Error ''release failed'')) recv_transport)) =
     Conn_new \<and>
   emitted (fst (close (broken_handler (Error ''release failed'')) recv_transport)) = []"
  using close_first_and_later_calls
          [of recv_transport quiet_handler "Error ''release failed''"
              "[Local_close, Handler_connectionstatechange Conn_failed, Local_close]"]
        close_first_and_later_calls
          [of recv_transport "broken_handler (Error ''release failed'')"
              "Error ''release failed''" "[]"]
  by (simp add: fixtures)

text \<open>
  Against C6 as stated (\<^verbatim>\<open>close()\<close> never fails): with a handler whose \<^verbatim>\<open>close\<close> throws, the
  failure reaches the caller of \<^verbatim>\<open>close()\<close>; the connection state is still \<^verbatim>\<open>new\<close> and no
  shutdown notification was emitted.
\<close>

theorem close_propagates_handler_failure:
  "snd (close (broken_handler (Error ''release failed'')) recv_transport) =
     Some (Error ''release failed'') \<and>
   connectionState (fst (close (broken_handler (Error ''release failed'')) recv_transport)) =
     Conn_new \<and>
   emitted (fst (close (broken_handler (Error ''release failed'')) recv_transport)) = []"
  by (simp add: close_def fixtures)

text \<open>
  C4, as the code has it. An event of the handler leaves the axis at the event's value;
  the change notification is emitted if and only if that value differs from the value
  before and the transport is not closed, so assigning the same value emits nothing.
  \<^verbatim>\<open>close()\<close> never emits a state notification and never touches the gathering state. On
  the first call, when the handler's \<^verbatim>\<open>close\<close> returns, it sets the connection state to
  \<^verbatim>\<open>closed\<close> and emits only the observer's \<^verbatim>\<open>close\<close>; on a closed transport, or when the
  handler's \<^verbatim>\<open>close\<close> throws, it leaves the connection state as it was and emits nothing.
\<close>

theorem state_change_notifications:
  "iceGatheringState (on_icegatheringstatechange s t) = s \<and>
   emitted (on_icegatheringstatechange s t) =
     emitted t @ (if s \<noteq> iceGatheringState t \<and> \<not> closed t
                  then [Icegatheringstatechange s] else []) \<and>
   connectionState (on_connectionstatechange c t) = c \<and>
   emitted (on_connectionstatechange c t) =
     emitted t @ (if c \<noteq> connectionState t \<and> \<not> closed t
                  then [Connectionstatechange c] else []) \<and>
   emitted (fst (close H t)) =
     emitted t @ (if \<not> closed t \<and> fst (handler_close H (handler t)) = None
                  then [Observer_close] else []) \<and>
   connectionState (fst (close H t)) =
     (if \<not> closed t \<and> fst (handler_close H (handler t)) = None
      then Conn_closed else connectionState t) \<and>
   iceGatheringState (fst (close H t)) = iceGatheringState t"
  by (auto simp: on_icegatheringstatechange_def on_connectionstatechange_def Let_def
        close_open closed_close split: option.splits)

text \<open>
  Against C4 as stated: \<^verbatim>\<open>close()\<close> on a new transport assigns a connection state that
  differs from the one before, and no connection-state notification is emitted.
\<close>

theorem close_changes_state_silently:
  "connectionState (fst (close quiet_handler recv_transport)) \<noteq> connectionState recv_transport \<and>
   Connectionstatechange (connectionState (fst (close quiet_handler recv_transport)))
     \<notin> set (emitted (fst (close quiet_handler recv_transport)))"
  by (simp add: close_def fixtures)

text \<open>
  C3, as the code has it. Once the transport is closed, whatever the handler raises and
  however often \<^verbatim>\<open>close()\<close> is called again, the closed flag stays set and nothing is
  emitted any more. The stored connection state is not frozen: a connection-state event
  on a closed transport still assigns its value (without a notification). So the
  connection state keeps its value exactly as long as the handler raises no
  connection-state event with another value.
\<close>

theorem closed_transport_state:
  "closed t \<Longrightarrow>
   closed (run_stimuli H t xs) \<and>
   emitted (run_stimuli H t xs) = emitted t \<and>
   on_connectionstatechange s t = t\<lparr>connectionState := s\<rparr> \<and>
   ((\<forall>c. Handler_connectionstatechange c \<in> set xs \<longrightarrow> c = connectionState t) \<longrightarrow>
      connectionState (run_stimuli H t xs) = connectionState t)"
  by (simp add: run_stimuli_closed run_stimuli_keeps_connectionState on_connectionstatechange_def)

theorem closed_transport_state_witness:
  "closed (fst (close quiet_handler recv_transport)) \<and>
   connectionState
     (run_stimuli quiet_handler (fst (close quiet_handler recv_transport))
        [Handler_connectionstatechange Conn_closed, Local_close,
         Handler_icegatheringstatechange Ice_complete]) = Conn_closed \<and>
   emitted
     (run_stimuli quiet_handler (fst (close quiet_handler recv_transport))
        [Handler_connectionstatechange Conn_closed, Local_close,
         Handler_icegatheringstatechange Ice_complete]) = [Observer_close]"
  using closed_transport_state
          [of "fst (close quiet_handler recv_transport)" quiet_handler
              "[Handler_connectionstatechange Conn_closed, Local_close,
                Handler_icegatheringstatechange Ice_complete]" Conn_failed]
  by (simp add: close_def fixtures)

text \<open>
  Against C3 as stated: after \<^verbatim>\<open>close()\<close> the connection state is \<^verbatim>\<open>closed\<close>, and a
  connection-state event of the handler moves it to \<^verbatim>\<open>failed\<close>.
\<close>

theorem connection_state_leaves_closed:
  "connectionState (fst (close quiet_handler recv_transport)) = Conn_closed \<and>
   connectionState
     (run_stimuli quiet_handler (fst (close quiet_handler recv_transport))
        [Handler_connectionstatechange Conn_failed]) = Conn_failed"
  by (simp add: run_stimuli_def on_connectionstatechange_def close_def fixtures)

section \<open>The checks of consume()\<close>

lemma clone_read: "(S @ [S ! a]) ! length S = S ! a"
  by simp

lemma consume_closed: "closed t \<Longrightarrow> fst (consume R S t opts) = Inl (InvalidStateError ''closed'')"
  by (simp add: consume_def clone_def)

lemma consume_direction:
  "\<not> closed t \<Longrightarrow> direction t \<noteq> Recv \<Longrightarrow>
   fst (consume R S t opts) = Inl (UnsupportedError ''not a receiving Transport'')"
  by (simp add: consume_def clone_def)

lemma consume_missing_id:
  "\<not> closed t \<Longrightarrow> direction t = Recv \<Longrightarrow> c_id opts = None \<Longrightarrow>
   fst (consume R S t opts) = Inl (TypeError ''missing id'')"
  by (simp add: consume_def clone_def)

lemma consume_missing_producerId:
  "\<not> closed t \<Longrightarrow> direction t = Recv \<Longrightarrow> c_id opts = Some i \<Longrightarrow> c_producerId opts = None \<Longrightarrow>
   fst (consume R S t opts) = Inl (TypeError ''missing producerId'')"
  by (simp add: consume_def clone_def)

lemma consume_invalid_kind:
  "\<not> closed t \<Longrightarrow> direction t = Recv \<Longrightarrow> c_id opts = Some i \<Longrightarrow> c_producerId opts = Some pid \<Longrightarrow>
   c_kind opts \<noteq> Some ''audio'' \<Longrightarrow> c_kind opts \<noteq> Some ''video'' \<Longrightarrow>
   fst (consume R S t opts) =
     Inl (TypeError (''invalid kind '' @ [CHR 0x27] @ template (c_kind opts) @ [CHR 0x27]))"
  by (simp add: consume_def clone_def)

lemma consume_checked:
  "\<not> closed t \<Longrightarrow> direction t = Recv \<Longrightarrow> c_id opts = Some i \<Longrightarrow> c_producerId opts = Some pid \<Longrightarrow>
   c_kind opts = Some k \<Longrightarrow> k = ''audio'' \<or> k = ''video'' \<Longrightarrow>
   fst (consume R S t opts) =
     (if fst (canReceive R (S ! c_rtpParameters opts) (extendedRtpCapabilities t))
      then Inr (Cmd_consume i k (length S) (c_streamId opts), ''transport.createConsumer()'')
      else Inl (UnsupportedError ''cannot consume this Producer''))"
  by (auto simp add: consume_def clone_def template_def split: prod.splits)

lemma consume_call_throws:
  "fst (consume R S t opts) = Inl e \<Longrightarrow>
   fst (consume_call H R v (S, t) opts) = Inl e \<and> snd (snd (consume_call H R v (S, t) opts)) = t"
  by (cases "consume R S t opts") (simp add: consume_call_def settle_def)

text \<open>
  C7. \<^verbatim>\<open>consume()\<close> fails in this order, before anything is pushed: with
  \<open>InvalidStateError ''closed''\<close> (Closed) on a closed transport; with an \<open>UnsupportedError\<close>
  when the direction is not \<^verbatim>\<open>recv\<close>; with a \<open>TypeError\<close> (BadArgument) when \<^verbatim>\<open>id\<close> is not a
  string, then when \<^verbatim>\<open>producerId\<close> is not a string, then when \<^verbatim>\<open>kind\<close> is neither \<^verbatim>\<open>audio\<close> nor
  \<^verbatim>\<open>video\<close>; and then with an \<open>UnsupportedError\<close> when \<^verbatim>\<open>canReceive\<close> answers false for the
  parameters and the transport's capabilities. When all checks pass, the command is
  pushed. A call that fails in these checks gives the caller that failure and leaves
  the transport as it was: its handler state and the list of requests made to the
  handler are unchanged.
\<close>

theorem consume_preflight:
  "(closed t \<longrightarrow> fst (consume R S t opts) = Inl (InvalidStateError ''closed'')) \<and>
   (\<not> closed t \<and> direction t \<noteq> Recv \<longrightarrow>
      fst (consume R S t opts) = Inl (UnsupportedError ''not a receiving Transport'')) \<and>
   (\<not> closed t \<and> direction t = Recv \<and> c_id opts = None \<longrightarrow>
      fst (consume R S t opts) = Inl (TypeError ''missing id'')) \<and>
   (\<not> closed t \<and> direction t = Recv \<and> c_id opts = Some i \<and> c_producerId opts = None \<longrightarrow>
      fst (consume R S t opts) = Inl (TypeError ''missing producerId'')) \<and>
   (\<not> closed t \<and> direction t = Recv \<and> c_id opts = Some i \<and> c_producerId opts = Some pid \<and>
    c_kind opts \<noteq> Some ''audio'' \<and> c_kind opts \<noteq> Some ''video'' \<longrightarrow>
      (\<exists>m. fst (consume R S t opts) = Inl (TypeError m))) \<and>
   (\<not> closed t \<and> direction t = Recv \<and> c_id opts = Some i \<and> c_producerId opts = Some pid \<and>
    c_kind opts = Some k \<and> (k = ''audio'' \<or> k = ''video'') \<and>
    \<not> fst (canReceive R (S ! c_rtpParameters opts) (extendedRtpCapabilities t)) \<longrightarrow>
      fst (consume R S t opts) = Inl (UnsupportedError ''cannot consume this Producer'')) \<and>
   (\<not> closed t \<and> direction t = Recv \<and> c_id opts = Some i \<and> c_producerId opts = Some pid \<and>
    c_kind opts = Some k \<and> (k = ''audio'' \<or> k = ''video'') \<and>
    fst (canReceive R (S ! c_rtpParameters opts) (extendedRtpCapabilities t)) \<longrightarrow>
      fst (consume R S t opts) =
        Inr (Cmd_consume i k (length S) (c_streamId opts), ''transport.createConsumer()'')) \<and>
   (fst (consume R S t opts) = Inl e \<longrightarrow>
      fst (consume_call H R v (S, t) opts) = Inl e \<and>
      snd (snd (consume_call H R v (S, t) opts)) = t)"
proof -
  have kind: "\<not> closed t \<and> direction t = Recv \<and> c_id opts = Some i \<and> c_producerId opts = Some pid \<and>
      c_kind opts \<noteq> Some ''audio'' \<and> c_kind opts \<noteq> Some ''video'' \<longrightarrow>
      (\<exists>m. fst (consume R S t opts) = Inl (TypeError m))"
    using consume_invalid_kind [of t opts i pid R S] by blast
  show ?thesis
    using kind
    by (simp add: consume_closed consume_direction consume_missing_id consume_missing_producerId
          consume_checked consume_call_throws del: append.simps)
qed


text \<open>Each case of the theorem, on a transport and a handler that can be run.\<close>

theorem consume_preflight_witness:
  "fst (consume plain_ortc [7] (fst (close quiet_handler recv_transport)) video_consumer) =
     Inl (InvalidStateError ''closed'') \<and>
   fst (consume plain_ortc [7] send_transport video_consumer) =
     Inl (UnsupportedError ''not a receiving Transport'') \<and>
   fst (consume plain_ortc [7] recv_transport (video_consumer\<lparr>c_id := None\<rparr>)) =
     Inl (TypeError ''missing id'') \<and>
   fst (consume plain_ortc [7] recv_transport (video_consumer\<lparr>c_producerId := None\<rparr>)) =
     Inl (TypeError ''missing producerId'') \<and>
   fst (consume plain_ortc [7] recv_transport (video_consumer\<lparr>c_kind := Some ''data''\<rparr>)) =
     Inl (TypeError (''invalid kind '' @ [CHR 0x27] @ ''data'' @ [CHR 0x27])) \<and>
   fst (consume (plain_ortc\<lparr>canReceive := (\<lambda>p caps. (False, p))\<rparr>) [7] recv_transport
          video_consumer) =
     Inl (UnsupportedError ''cannot consume this Producer'') \<and>
   fst (consume plain_ortc [7] recv_transport video_consumer) =
     Inr (Cmd_consume ''c1'' ''video'' 1 None, ''transport.createConsumer()'') \<and>
   consume_call quiet_handler plain_ortc Settles_with_task ([7], send_transport) video_consumer =
     (Inl (UnsupportedError ''not a receiving Transport''), [7, 7], send_transport)"
  using consume_preflight
          [where t = "fst (close quiet_handler recv_transport)" and R = plain_ortc and S = "[7]"
             and opts = video_consumer]
        consume_preflight
          [where t = send_transport and R = plain_ortc and S = "[7]" and opts = video_consumer
             and e = "UnsupportedError ''not a receiving Transport''" and H = quiet_handler
             and v = Settles_with_task]
        consume_preflight
          [where t = recv_transport and R = plain_ortc and S = "[7]"
             and opts = "video_consumer\<lparr>c_id := None\<rparr>"]
        consume_preflight
          [where t = recv_transport and R = plain_ortc and S = "[7]" and i = "''c1''"
             and opts = "video_consumer\<lparr>c_producerId := None\<rparr>"]
        consume_preflight
          [where t = recv_transport and R = plain_ortc and S = "[7]" and i = "''c1''"
             and pid = "''p1''" and opts = "video_consumer\<lparr>c_kind := Some ''data''\<rparr>"]
        consume_preflight
          [where t = recv_transport and R = "plain_ortc\<lparr>canReceive := (\<lambda>p caps. (False, p))\<rparr>"
             and S = "[7]" and i = "''c1''" and pid = "''p1''" and k = "''video''"
             and opts = video_consumer]
        consume_preflight
          [where t = recv_transport and R = plain_ortc and S = "[7]" and i = "''c1''"
             and pid = "''p1''" and k = "''video''" and opts = video_consumer]
  by (simp add: fixtures video_consumer_def close_def consume_def clone_def template_def
        consume_call_def settle_def)

section \<open>produce() and produceData()\<close>

lemma produce_pushes_track:
  "produce t opts = Inr q \<Longrightarrow> \<exists>tr. track opts = Some tr \<and> track_readyState tr = Live"
  by (auto simp: produce_def split: if_splits option.splits intro: readyState.exhaust)

lemma produce_call_throws:
  "produce t opts = Inl e \<Longrightarrow> produce_call H R v (S, t) opts = (Inl e, track opts, S, t)"
  by (simp add: produce_call_def)

lemma produce_call_rejected:
  assumes "produce t opts = Inr q" and "fst (produce_call H R v (S, t) opts) = Inl e"
  shows "fst (snd (produce_call H R v (S, t) opts)) =
           (if default True (stopTracks opts) then map_option track_stop (track opts)
            else track opts)"
proof -
  obtain cmd name where q: "q = (cmd, name)" by (cases q)
  obtain r st1 where p: "push v (run_command H R cmd) (S, t) = (r, st1)"
    by (cases "push v (run_command H R cmd) (S, t)")
  from assms q p show ?thesis
    by (cases r) (simp_all add: produce_call_def produce_catch_def)
qed

text \<open>
  C8, as the code has it. When \<^verbatim>\<open>produce()\<close> has passed its synchronous checks and the pushed
  promise is rejected, for whatever reason (the queue rejects it, \<^verbatim>\<open>encodings\<close> is not an
  array, the handler's \<^verbatim>\<open>send\<close> fails, the validation of the returned parameters fails), and
  \<^verbatim>\<open>stopTracks\<close> is true (its default), then the caller gets that failure and the track has
  been stopped. When one of the synchronous checks fails, the failure is thrown at once
  and nothing else happens: the track is as it was.
\<close>

theorem produce_failure_stops_track:
  "(produce t opts = Inl e \<longrightarrow> produce_call H R v (S, t) opts = (Inl e, track opts, S, t)) \<and>
   (produce t opts = Inr q \<and> fst (produce_call H R v (S, t) opts) = Inl e \<and>
    default True (stopTracks opts) \<longrightarrow>
      (\<exists>tr. track opts = Some tr \<and>
            fst (snd (produce_call H R v (S, t) opts)) = Some (track_stop tr) \<and>
            track_readyState (track_stop tr) = Ended))"
proof (intro conjI impI)
  assume "produce t opts = Inl e"
  then show "produce_call H R v (S, t) opts = (Inl e, track opts, S, t)"
    by (rule produce_call_throws)
next
  assume a: "produce t opts = Inr q \<and> fst (produce_call H R v (S, t) opts) = Inl e \<and>
    default True (stopTracks opts)"
  then obtain tr where tr: "track opts = Some tr" using produce_pushes_track by blast
  from a have "fst (snd (produce_call H R v (S, t) opts)) = map_option track_stop (track opts)"
    using produce_call_rejected [of t opts q H R v S e] by simp
  with tr show "\<exists>tr. track opts = Some tr \<and>
            fst (snd (produce_call H R v (S, t) opts)) = Some (track_stop tr) \<and>
            track_readyState (track_stop tr) = Ended"
    by (simp add: track_stop_def)
qed

theorem produce_failure_stops_track_witness:
  "fst (produce_call (broken_handler (Error ''send failed'')) plain_ortc Settles_with_task
          ([], send_transport) audio_producer) = Inl (Error ''send failed'') \<and>
   fst (snd (produce_call (broken_handler (Error ''send failed'')) plain_ortc Settles_with_task
          ([], send_transport) audio_producer)) =
     Some \<lparr>track_kind = ''audio'', track_readyState = Ended\<rparr> \<and>
   fst (produce_call quiet_handler plain_ortc (Rejects_unstarted (Error ''stopped''))
          ([], send_transport) audio_producer) = Inl (Error ''stopped'') \<and>
   fst (snd (produce_call quiet_handler plain_ortc (Rejects_unstarted (Error ''stopped''))
          ([], send_transport) audio_producer)) =
     Some \<lparr>track_kind = ''audio'', track_readyState = Ended\<rparr> \<and>
   produce_call quiet_handler plain_ortc Settles_with_task ([], recv_transport) audio_producer =
     (Inl (UnsupportedError ''not a sending Transport''), Some (live_track ''audio''), [],
      recv_transport)"
  using produce_failure_stops_track
          [where t = send_transport and opts = audio_producer
             and H = "broken_handler (Error ''send failed'')" and R = plain_ortc
             and v = Settles_with_task and S = "[]" and e = "Error ''send failed''"
             and q = "(Cmd_produce (live_track ''audio'') Encodings_undefined None None,
                       ''transport.produce()'')"]
        produce_failure_stops_track
          [where t = send_transport and opts = audio_producer
             and H = quiet_handler and R = plain_ortc
             and v = "Rejects_unstarted (Error ''stopped'')" and S = "[]"
             and e = "Error ''stopped''"
             and q = "(Cmd_produce (live_track ''audio'') Encodings_undefined None None,
                       ''transport.produce()'')"]
        produce_failure_stops_track
          [where t = recv_transport and opts = audio_producer
             and H = quiet_handler and R = plain_ortc
             and v = Settles_with_task and S = "[]"
             and e = "UnsupportedError ''not a sending Transport''"]
  by (simp add: fixtures audio_producer_def produce_call_def produce_def push_def
        produce_task_def produce_catch_def default_def track_stop_def)

text \<open>
  Against C8 as stated: \<^verbatim>\<open>produce()\<close> on a closed transport, with a live track and
  \<^verbatim>\<open>stopTracks\<close> left at its default, fails with \<open>InvalidStateError ''closed''\<close> and the track
  is still live.
\<close>

theorem produce_on_closed_keeps_track_live:
  "fst (produce_call quiet_handler plain_ortc Settles_with_task
          ([], fst (close quiet_handler send_transport)) audio_producer) =
     Inl (InvalidStateError ''closed'') \<and>
   stopTracks audio_producer = None \<and>
   fst (snd (produce_call quiet_handler plain_ortc Settles_with_task
          ([], fst (close quiet_handler send_transport)) audio_producer)) =
     Some \<lparr>track_kind = ''audio'', track_readyState = Live\<rparr>"
  by (simp add: fixtures audio_producer_def produce_call_def produce_def close_def)

text \<open>
  C9 says that \<^verbatim>\<open>ordered\<close> is forced to false for every given limit, \<^verbatim>\<open>0\<close> included. The test
  in \<^verbatim>\<open>produceData()\<close> is one of truthiness, and \<^verbatim>\<open>0\<close> is falsy: with \<^verbatim>\<open>maxRetransmits: 0\<close> and
  \<^verbatim>\<open>ordered\<close> not given, the command is pushed with \<^verbatim>\<open>ordered\<close> true, and that is what the
  handler's \<^verbatim>\<open>sendDataChannel\<close> is called with.
\<close>

theorem produceData_zero_limit_stays_ordered:
  "produceData send_transport zero_retransmits =
     Inr (Cmd_produceData True None (Some 0) [] [], ''transport.produceData()'') \<and>
   calls (snd (snd (produceData_call quiet_handler plain_ortc Settles_with_task
                      ([], send_transport) zero_retransmits))) =
     [Call_sendDataChannel
        \<lparr>sdc_ordered = True, sdc_maxPacketLifeTime = None, sdc_maxRetransmits = Some 0,
         sdc_label = [], sdc_protocol = []\<rparr>]"
  by (simp add: fixtures zero_retransmits_def produceData_call_def produceData_def settle_def
        push_def produceData_task_def default_def truthy_def)

text \<open>What \<^verbatim>\<open>produceData()\<close> passes as \<^verbatim>\<open>ordered\<close> in general.\<close>

lemma produceData_ordered_flag:
  "produceData t opts = Inr (Cmd_produceData ordered lifetime retransmits lbl protocol, name) \<Longrightarrow>
   ordered =
     (default True (dp_ordered opts) \<and> \<not> truthy (dp_maxPacketLifeTime opts) \<and>
      \<not> truthy (dp_maxRetransmits opts))"
  by (auto simp: produceData_def Let_def split: if_splits)

section \<open>The probator\<close>

lemma consume_task_result:
  assumes "handler_receive H (handler t)
             \<lparr>recv_trackId = i, recv_kind = k, recv_rtpParameters = p, recv_streamId = sid\<rparr>
             (S ! p) = (r1, h1, p1)"
  shows "fst (consume_task H R i k p sid (S, t)) =
           (case r1 of Inl e \<Rightarrow> Inl e | Inr results \<Rightarrow> Inr (Res_receive (first_result results)))"
  using assms
  by (simp add: consume_task_def Let_def split: prod.splits sum.splits)

lemma consume_task_marker_set:
  assumes "probatorConsumerCreated t"
  shows "probatorConsumerCreated (snd (snd (consume_task H R i k p sid (S, t)))) \<and>
         calls (snd (snd (consume_task H R i k p sid (S, t)))) =
           calls t @ [consumer_request i k p sid]"
  using assms
  by (simp add: consume_task_def consumer_request_def Let_def split: prod.splits sum.splits)

lemma consume_task_no_probator:
  assumes "handler_receive H (handler t)
             \<lparr>recv_trackId = i, recv_kind = k, recv_rtpParameters = p, recv_streamId = sid\<rparr>
             (S ! p) = (r1, h1, p1)"
    and "k \<noteq> ''video'' \<or> isl r1"
  shows "probatorConsumerCreated (snd (snd (consume_task H R i k p sid (S, t)))) =
           probatorConsumerCreated t \<and>
         calls (snd (snd (consume_task H R i k p sid (S, t)))) =
           calls t @ [consumer_request i k p sid]"
  using assms
  by (auto simp add: consume_task_def consumer_request_def Let_def split: prod.splits sum.splits)

lemma consume_task_probator:
  assumes "handler_receive H (handler t)
             \<lparr>recv_trackId = i, recv_kind = ''video'', recv_rtpParameters = p, recv_streamId = sid\<rparr>
             (S ! p) = (Inr results, h1, p1)"
    and "\<not> probatorConsumerCreated t"
  shows "case generateProbatorRtpParameters R (S[p := p1] ! p) of
           (Inl e, p2) \<Rightarrow>
             calls (snd (snd (consume_task H R i ''video'' p sid (S, t)))) =
               calls t @ [consumer_request i ''video'' p sid] \<and>
             \<not> probatorConsumerCreated (snd (snd (consume_task H R i ''video'' p sid (S, t))))
         | (Inr probator, p2) \<Rightarrow>
             calls (snd (snd (consume_task H R i ''video'' p sid (S, t)))) =
               calls t @ [consumer_request i ''video'' p sid,
                          Call_receive [probator_options (length S)]] \<and>
             probatorConsumerCreated (snd (snd (consume_task H R i ''video'' p sid (S, t)))) =
               (\<not> isl (fst (handler_receive H h1 (probator_options (length S)) probator)))"
  using assms
  by (auto simp add: consume_task_def consumer_request_def probator_options_def Let_def
        split: prod.splits sum.splits)

lemma run_command_keeps_marker:
  "probatorConsumerCreated (snd st) \<Longrightarrow>
   probatorConsumerCreated (snd (snd (run_command H R cmd st)))"
  by (cases st; cases cmd)
     (auto simp: void_task_def produce_task_def produceData_task_def consume_task_def
        consumeData_task_def Let_def split: prod.splits sum.splits option.splits)

lemma run_commands_keeps_marker:
  "probatorConsumerCreated (snd st) \<Longrightarrow>
   probatorConsumerCreated (snd (run_commands H R st cs))"
  unfolding run_commands_def
  by (induction cs arbitrary: st) (simp_all add: run_command_keeps_marker)

lemma run_consumes_marker_set:
  "probatorConsumerCreated (snd st) \<Longrightarrow>
   calls (snd (run_commands H R st (map consume_command xs))) =
     calls (snd st) @ map consume_request xs"
  unfolding run_commands_def
proof (induction xs arbitrary: st)
  case Nil
  then show ?case by simp
next
  case (Cons x xs)
  obtain S t where st: "st = (S, t)" by (cases st)
  obtain i k p sid where x: "x = (i, k, p, sid)" by (cases x)
  let ?st1 = "snd (run_command H R (consume_command x) st)"
  have m: "probatorConsumerCreated (snd ?st1)"
    using Cons.prems by (rule run_command_keeps_marker)
  have c: "calls (snd ?st1) = calls (snd st) @ [consume_request x]"
    using Cons.prems consume_task_marker_set [of t H R i k p sid S] by (simp add: st x)
  show ?case using Cons.IH [OF m] c by simp
qed


text \<open>
  C2, as the code has it. Take the task of a \<^verbatim>\<open>consume()\<close> and what the handler answers to
  the request for the caller's stream. The task's result is that answer (its first
  element), whatever happens to the probator. When the marker is set, the task makes
  that one request and the marker stays set. When the kind is not \<^verbatim>\<open>video\<close> or the handler
  fails the caller's request, that one request is made and the marker is unchanged.
  When the marker is unset, the kind is \<^verbatim>\<open>video\<close> and the handler fulfils the caller's
  request, the probator's parameters are derived; when that throws, nothing more is
  requested and the marker stays unset; otherwise exactly one more request is made,
  for the track \<^verbatim>\<open>probator\<close> of kind \<^verbatim>\<open>video\<close> on a new parameter object, and the marker is set
  if and only if the handler fulfils it. Once the marker is set it stays set through
  any list of commands, and a list of \<^verbatim>\<open>consume()\<close> tasks then makes exactly the callers'
  requests.
\<close>

theorem probator_policy:
  assumes "handler_receive H (handler t)
             \<lparr>recv_trackId = i, recv_kind = k, recv_rtpParameters = p, recv_streamId = sid\<rparr>
             (S ! p) = (own, h', p')"
  shows
    "fst (consume_task H R i k p sid (S, t)) =
       (case own of Inl e \<Rightarrow> Inl e | Inr results \<Rightarrow> Inr (Res_receive (first_result results))) \<and>
     (probatorConsumerCreated t \<longrightarrow>
        probatorConsumerCreated (snd (snd (consume_task H R i k p sid (S, t)))) \<and>
        calls (snd (snd (consume_task H R i k p sid (S, t)))) =
          calls t @ [consumer_request i k p sid]) \<and>
     (k \<noteq> ''video'' \<or> isl own \<longrightarrow>
        probatorConsumerCreated (snd (snd (consume_task H R i k p sid (S, t)))) =
          probatorConsumerCreated t \<and>
        calls (snd (snd (consume_task H R i k p sid (S, t)))) =
          calls t @ [consumer_request i k p sid]) \<and>
     (\<not> probatorConsumerCreated t \<and> k = ''video'' \<and> \<not> isl own \<longrightarrow>
        (case generateProbatorRtpParameters R (S[p := p'] ! p) of
           (Inl e, p2) \<Rightarrow>
             calls (snd (snd (consume_task H R i k p sid (S, t)))) =
               calls t @ [consumer_request i k p sid] \<and>
             \<not> probatorConsumerCreated (snd (snd (consume_task H R i k p sid (S, t))))
         | (Inr probator, p2) \<Rightarrow>
             calls (snd (snd (consume_task H R i k p sid (S, t)))) =
               calls t @ [consumer_request i k p sid,
                          Call_receive [probator_options (length S)]] \<and>
             probatorConsumerCreated (snd (snd (consume_task H R i k p sid (S, t)))) =
               (\<not> isl (fst (handler_receive H h' (probator_options (length S)) probator))))) \<and>
     (probatorConsumerCreated t \<longrightarrow>
        probatorConsumerCreated (snd (run_commands H R (S, t) cs)) \<and>
        calls (snd (run_commands H R (S, t) (map consume_command xs))) =
          calls t @ map consume_request xs)"
proof (intro conjI impI)
  show "fst (consume_task H R i k p sid (S, t)) =
       (case own of Inl e \<Rightarrow> Inl e | Inr results \<Rightarrow> Inr (Res_receive (first_result results)))"
    using assms by (rule consume_task_result)
next
  assume "probatorConsumerCreated t"
  then show "probatorConsumerCreated (snd (snd (consume_task H R i k p sid (S, t))))"
    and "calls (snd (snd (consume_task H R i k p sid (S, t)))) =
          calls t @ [consumer_request i k p sid]"
    using consume_task_marker_set [of t H R i k p sid S] by simp_all
next
  assume "k \<noteq> ''video'' \<or> isl own"
  then show "probatorConsumerCreated (snd (snd (consume_task H R i k p sid (S, t)))) =
          probatorConsumerCreated t"
    and "calls (snd (snd (consume_task H R i k p sid (S, t)))) =
          calls t @ [consumer_request i k p sid]"
    using consume_task_no_probator [OF assms] by simp_all
next
  assume a: "\<not> probatorConsumerCreated t \<and> k = ''video'' \<and> \<not> isl own"
  then obtain results where "own = Inr results" by (cases own) simp_all
  moreover from a have kv: "k = ''video''" by simp
  ultimately show "case generateProbatorRtpParameters R (S[p := p'] ! p) of
           (Inl e, p2) \<Rightarrow>
             calls (snd (snd (consume_task H R i k p sid (S, t)))) =
               calls t @ [consumer_request i k p sid] \<and>
             \<not> probatorConsumerCreated (snd (snd (consume_task H R i k p sid (S, t))))
         | (Inr probator, p2) \<Rightarrow>
             calls (snd (snd (consume_task H R i k p sid (S, t)))) =
               calls t @ [consumer_request i k p sid,
                          Call_receive [probator_options (length S)]] \<and>
             probatorConsumerCreated (snd (snd (consume_task H R i k p sid (S, t)))) =
               (\<not> isl (fst (handler_receive H h' (probator_options (length S)) probator)))"
    unfolding kv using a assms consume_task_probator [of H t i p sid S results h' p' R] by simp
next
  assume "probatorConsumerCreated t"
  then show "probatorConsumerCreated (snd (run_commands H R (S, t) cs))"
    and "calls (snd (run_commands H R (S, t) (map consume_command xs))) =
          calls t @ map consume_request xs"
    using run_commands_keeps_marker [of "(S, t)" H R cs]
      run_consumes_marker_set [of "(S, t)" H R xs] by simp_all
qed

text \<open>
  With a handler that fails only the probator: the first video consumer requests it,
  the caller gets its own result, and the second video consumer requests it again.
  With a handler that fulfils everything: the marker is set, and later video consumers
  request nothing but their own streams. An audio consumer requests no probator.
\<close>

theorem probator_policy_witness:
  "consume_task (no_probator_handler (Error ''no probator'')) plain_ortc ''c1'' ''video'' 0 None
     ([7], recv_transport) =
     (Inr (Res_receive (Some ''c1'')), [7, 8],
      recv_transport\<lparr>handler := 2,
        calls := [consumer_request ''c1'' ''video'' 0 None, Call_receive [probator_options 1]]\<rparr>) \<and>
   calls (snd (run_commands (no_probator_handler (Error ''no probator'')) plain_ortc
                 ([7], recv_transport)
                 [Cmd_consume ''c1'' ''video'' 0 None, Cmd_consume ''c2'' ''video'' 0 None])) =
     [consumer_request ''c1'' ''video'' 0 None, Call_receive [probator_options 1],
      consumer_request ''c2'' ''video'' 0 None, Call_receive [probator_options 2]] \<and>
   consume_task quiet_handler plain_ortc ''c1'' ''video'' 0 None ([7], recv_transport) =
     (Inr (Res_receive (Some ''c1'')), [7, 8],
      recv_transport\<lparr>handler := 2, probatorConsumerCreated := True,
        calls := [consumer_request ''c1'' ''video'' 0 None, Call_receive [probator_options 1]]\<rparr>) \<and>
   calls (snd (run_commands quiet_handler plain_ortc
                 ([7], recv_transport\<lparr>probatorConsumerCreated := True\<rparr>)
                 (map consume_command [(''c2'', ''video'', 0, None), (''c3'', ''video'', 0, None)]))) =
     [consumer_request ''c2'' ''video'' 0 None, consumer_request ''c3'' ''video'' 0 None] \<and>
   consume_task quiet_handler plain_ortc ''a1'' ''audio'' 0 None ([7], recv_transport) =
     (Inr (Res_receive (Some ''a1'')), [7],
      recv_transport\<lparr>handler := 1, calls := [consumer_request ''a1'' ''audio'' 0 None]\<rparr>)"
  using probator_policy
          [where H = "no_probator_handler (Error ''no probator'')" and t = recv_transport
             and i = "''c1''" and k = "''video''" and p = 0 and sid = None and S = "[7]"
             and own = "Inr [''c1'']" and h' = 1 and p' = 7 and R = plain_ortc]
        probator_policy
          [where H = quiet_handler and t = recv_transport
             and i = "''c1''" and k = "''video''" and p = 0 and sid = None and S = "[7]"
             and own = "Inr [''c1'']" and h' = 1 and p' = 7 and R = plain_ortc]
        probator_policy
          [where H = quiet_handler and t = "recv_transport\<lparr>probatorConsumerCreated := True\<rparr>"
             and i = "''c2''" and k = "''video''" and p = 0 and sid = None and S = "[7]"
             and own = "Inr [''c2'']" and h' = 1 and p' = 7 and R = plain_ortc and cs = "[]"
             and xs = "[(''c2'', ''video'', 0, None), (''c3'', ''video'', 0, None)]"]
        probator_policy
          [where H = quiet_handler and t = recv_transport
             and i = "''a1''" and k = "''audio''" and p = 0 and sid = None and S = "[7]"
             and own = "Inr [''a1'']" and h' = 1 and p' = 7 and R = plain_ortc]
  by (simp add: fixtures task_defs)

text \<open>
  Against C2 as stated: the marker is unset, a video consumer's task reaches the handler,
  the handler fails the request, and the probator is not requested.
\<close>

theorem failed_consume_requests_no_probator:
  "\<not> probatorConsumerCreated recv_transport \<and>
   consume_task (broken_handler (Error ''receive failed'')) plain_ortc ''c1'' ''video'' 0 None
     ([7], recv_transport) =
     (Inl (Error ''receive failed''), [7],
      recv_transport\<lparr>handler := 1,
        calls := [Call_receive [\<lparr>recv_trackId = ''c1'', recv_kind = ''video'',
                                 recv_rtpParameters = 0, recv_streamId = None\<rparr>]]\<rparr>)"
  by (simp add: fixtures consume_task_def)

section \<open>Where failures are raised\<close>






















lemma producer_lifecycle_pushes:
  "producer_lifecycle op \<Longrightarrow> \<exists>c name. invoke R S t op = Pushes (Cmd_void c) name"
  by (cases op)
     (simp_all add: pushed_def closeProducer_def pauseProducer_def resumeProducer_def
        replaceTrack_def setMaxSpatialLayer_def setRtpEncodingParameters_def)




text \<open>The producer lifecycle methods push whatever the closed flag says.\<close>

lemma closeProducer_on_closed_transport:
  "invoke plain_ortc [] (fst (close quiet_handler send_transport)) (Op_closeProducer ''l1'') =
     Pushes (Cmd_void (StopSending ''l1'')) ''producer @close event''"
  by (simp add: pushed_def closeProducer_def)

section \<open>The caller's parameter objects\<close>

lemma push_store:
  assumes "take n (fst (snd (task s))) = take n (fst s)"
  shows "take n (fst (snd (push v task s))) = take n (fst s)"
  using assms by (cases v) (simp_all add: push_def)

lemma task_store:
  "take n (fst (snd (void_task H c (S, t)))) = take n S"
  "take n (fst (snd (produce_task H R tr encs copts cdc (S, t)))) = take n S"
  "take n (fst (snd (produceData_task H R ordered lifetime retransmits lbl protocol (S, t)))) =
     take n S"
  by (simp_all add: void_task_def produce_task_def produceData_task_def Let_def
        split: prod.splits sum.splits option.splits)

lemma consume_task_store:
  "n \<le> p \<Longrightarrow> n \<le> length S \<Longrightarrow>
   take n (fst (snd (consume_task H R i k p sid (S, t)))) = take n S"
  by (simp add: consume_task_def Let_def split: prod.splits sum.splits)

lemma consumeData_task_store:
  "n \<le> p \<Longrightarrow> take n (fst (snd (consumeData_task H p lbl protocol (S, t)))) = take n S"
  by (simp add: consumeData_task_def Let_def split: prod.splits sum.splits)

lemma consume_store:
  "take (length S) (snd (consume R S t opts)) = S"
  by (simp add: consume_def clone_def Let_def split: prod.splits option.splits)

lemma consume_length: "length S < length (snd (consume R S t opts))"
  by (simp add: consume_def clone_def Let_def split: prod.splits option.splits)

lemma consume_pushes_clone:
  "fst (consume R S t opts) = Inr (cmd, name) \<Longrightarrow> \<exists>i k sid. cmd = Cmd_consume i k (length S) sid"
  by (auto simp add: consume_def clone_def Let_def split: prod.splits option.splits if_splits)

lemma consumeData_store:
  "take (length S) (snd (consumeData R S t opts)) = S"
  by (simp add: consumeData_def clone_def Let_def split: prod.splits option.splits)

lemma consumeData_length: "length S < length (snd (consumeData R S t opts))"
  by (simp add: consumeData_def clone_def Let_def split: prod.splits option.splits)

lemma consumeData_pushes_clone:
  "fst (consumeData R S t opts) = Inr (cmd, name) \<Longrightarrow>
   \<exists>lbl protocol. cmd = Cmd_consumeData (length S) lbl protocol"
  by (auto simp add: consumeData_def clone_def Let_def split: prod.splits option.splits if_splits)

lemma settle_store:
  assumes "\<And>cmd name. r = Inr (cmd, name) \<Longrightarrow>
             take n (fst (snd (run_command H R cmd (S, t)))) = take n S"
  shows "take n (fst (snd (settle H R v (S, t) r))) = take n S"
proof (cases r)
  case (Inl e)
  then show ?thesis by (simp add: settle_def)
next
  case (Inr q)
  obtain cmd name where q: "q = (cmd, name)" by (cases q)
  have "take n (fst (snd (push v (run_command H R cmd) (S, t)))) = take n (fst (S, t))"
    using assms [of cmd name] Inr q by (intro push_store) simp
  with Inr q show ?thesis by (simp add: settle_def)
qed

lemma consume_call_store:
  "take (length S) (fst (snd (consume_call H R v (S, t) opts))) = S"
proof -
  obtain r S1 where c: "consume R S t opts = (r, S1)" by (cases "consume R S t opts")
  have S1: "take (length S) S1 = S" and len: "length S < length S1"
    using consume_store [of S R t opts] consume_length [of S R t opts] c by simp_all
  have "take (length S) (fst (snd (settle H R v (S1, t) r))) = take (length S) S1"
  proof (rule settle_store)
    fix cmd name
    assume "r = Inr (cmd, name)"
    with c obtain i k sid where "cmd = Cmd_consume i k (length S) sid"
      using consume_pushes_clone [of R S t opts cmd name] by auto
    with len show "take (length S) (fst (snd (run_command H R cmd (S1, t)))) = take (length S) S1"
      by (simp add: consume_task_store)
  qed
  with c S1 show ?thesis by (simp add: consume_call_def)
qed

lemma consumeData_call_store:
  "take (length S) (fst (snd (consumeData_call H R v (S, t) opts))) = S"
proof -
  obtain r S1 where c: "consumeData R S t opts = (r, S1)" by (cases "consumeData R S t opts")
  have S1: "take (length S) S1 = S"
    using consumeData_store [of S R t opts] c by simp
  have "take (length S) (fst (snd (settle H R v (S1, t) r))) = take (length S) S1"
  proof (rule settle_store)
    fix cmd name
    assume "r = Inr (cmd, name)"
    with c obtain lbl protocol where "cmd = Cmd_consumeData (length S) lbl protocol"
      using consumeData_pushes_clone [of R S t opts cmd name] by auto
    then show "take (length S) (fst (snd (run_command H R cmd (S1, t)))) = take (length S) S1"
      by (simp add: consumeData_task_store)
  qed
  with c S1 show ?thesis by (simp add: consumeData_call_def)
qed

text \<open>
  C10. Whatever \<^verbatim>\<open>canReceive\<close>, the validations and the handler write to the object they are
  given, and however the queue settles the task: after \<^verbatim>\<open>consume()\<close> and after
  \<^verbatim>\<open>consumeData()\<close>, failed or not, every object that was in the store before the call is
  unchanged, the caller's parameters among them. Both take the clone first (the store
  grows), and the command they push refers to the clone.
\<close>

theorem caller_parameters_untouched:
  "take (length S) (fst (snd (consume_call H R v (S, t) opts))) = S \<and>
   take (length S) (fst (snd (consumeData_call H R v (S, t) data_opts))) = S \<and>
   length S < length (snd (consume R S t opts)) \<and>
   length S < length (snd (consumeData R S t data_opts)) \<and>
   (\<forall>cmd name. fst (consume R S t opts) = Inr (cmd, name) \<longrightarrow>
      (\<exists>i k sid. cmd = Cmd_consume i k (length S) sid)) \<and>
   (\<forall>cmd name. fst (consumeData R S t data_opts) = Inr (cmd, name) \<longrightarrow>
      (\<exists>lbl protocol. cmd = Cmd_consumeData (length S) lbl protocol))"
  using consume_call_store [of S H R v t opts] consumeData_call_store [of S H R v t data_opts]
    consume_length [of S R t opts] consumeData_length [of S R t data_opts]
    consume_pushes_clone [of R S t opts] consumeData_pushes_clone [of R S t data_opts]
  by blast

text \<open>
  With a validation that writes \<open>1\<close> into the object: the caller's object still holds
  \<open>7\<close>, the clone holds \<open>1\<close>.
\<close>

theorem caller_parameters_untouched_witness:
  "consumeData_call quiet_handler plain_ortc Settles_with_task ([7], recv_transport) data_consumer =
     (Inr (Res_receiveDataChannel ''channel''), [7, 1],
      recv_transport\<lparr>handler := 1,
        calls := [Call_receiveDataChannel
                    \<lparr>rdc_sctpStreamParameters = 1, rdc_label = [], rdc_protocol = []\<rparr>]\<rparr>) \<and>
   fst (consume plain_ortc [7] recv_transport video_consumer) =
     Inr (Cmd_consume ''c1'' ''video'' 1 None, ''transport.createConsumer()'') \<and>
   fst (snd (consume_call quiet_handler plain_ortc Settles_with_task ([7], recv_transport)
               video_consumer)) = [7, 7, 8]"
  using caller_parameters_untouched
          [where S = "[7]" and H = quiet_handler and R = plain_ortc and v = Settles_with_task
             and t = recv_transport and opts = video_consumer and data_opts = data_consumer]
  by (simp add: fixtures video_consumer_def data_consumer_def consumeData_call_def
        consumeData_def clone_def settle_def push_def consumeData_task_def truthy_def
        default_def consume_call_def consume_def consume_task_def template_def first_result_def)

end
